theory Spec2Isabelle
  imports Main "HOL-Library.Word"
begin

unbundle bit_operations_syntax

section \<open>Return codes\<close>

text \<open>
  \<open>vb2_error_t\<close> is an enumeration of pairwise distinct codes; \<open>VB2_SUCCESS\<close> is the
  only one that is zero, so the C test \<open>if (rv)\<close> reads \<open>rv \<noteq> VB2_SUCCESS\<close>. The
  constructors are the codes the two source files name, the two codes of the software RSA
  check (\<open>VB2_ERROR_RSA_PADDING\<close>, \<open>VB2_ERROR_RSA_DIGEST\<close>), and \<open>VB2_ERROR_OTHER c\<close>
  for every other code an external routine may hand back.
\<close>

datatype vb2_error =
    VB2_SUCCESS
  | VB2_ERROR_INSIDE_PARENT_WRAPS
  | VB2_ERROR_INSIDE_MEMBER_WRAPS
  | VB2_ERROR_INSIDE_MEMBER_OUTSIDE
  | VB2_ERROR_INSIDE_DATA_OVERLAP
  | VB2_ERROR_INSIDE_DATA_WRAPS
  | VB2_ERROR_INSIDE_DATA_OUTSIDE
  | VB2_ERROR_VDATA_SIG_SIZE
  | VB2_ERROR_VDATA_NOT_ENOUGH_DATA
  | VB2_ERROR_VDATA_DIGEST_SIZE
  | VB2_ERROR_VDATA_WORKBUF_DIGEST
  | VB2_ERROR_EX_HWCRYPTO_UNSUPPORTED
  | VB2_ERROR_RSA_PADDING
  | VB2_ERROR_RSA_DIGEST
  | VB2_ERROR_EC_HASH_IMAGE
  | VB2_ERROR_EC_HASH_EXPECTED
  | VB2_ERROR_EC_HASH_SIZE
  | VBERROR_REBOOT_REQUIRED
  | VBERROR_EC_REBOOT_TO_RO_REQUIRED
  | VBERROR_EC_REBOOT_TO_SWITCH_RW
  | VB2_ERROR_OTHER nat

section \<open>Common helpers of firmware/2lib/2common.c\<close>

subsection \<open>Constant-time comparison\<close>

text \<open>
  A \<open>const unsigned char *\<close> is modelled by the bytes it points at: \<open>p i\<close> is the byte
  at \<open>p + i\<close>. Advancing the pointer (\<open>us1++\<close>) shifts the view by one.
  \<open>size_t size\<close> only counts down to zero, so it is a \<open>nat\<close>. The accumulator
  \<open>int result\<close> is a 32-bit word; the bytes are promoted to \<open>int\<close> before the
  exclusive or, which \<open>ucast\<close> writes out.
\<close>

type_synonym byte_ptr = "nat \<Rightarrow> 8 word"

definition ptr_inc :: "byte_ptr \<Rightarrow> byte_ptr" where
  "ptr_inc p = (\<lambda>i. p (Suc i))"

text \<open>The loop \<open>while (size--) result |= *us1++ ^ *us2++;\<close> of \<open>vb2_safe_memcmp\<close>.\<close>

fun safe_memcmp_loop :: "byte_ptr \<Rightarrow> byte_ptr \<Rightarrow> nat \<Rightarrow> 32 word \<Rightarrow> 32 word" where
  "safe_memcmp_loop us1 us2 0 result = result"
| "safe_memcmp_loop us1 us2 (Suc size') result =
     safe_memcmp_loop (ptr_inc us1) (ptr_inc us2) size'
       (result OR (ucast (us1 0) XOR ucast (us2 0)))"

text \<open>\<open>vb2_safe_memcmp\<close>: the value returned is \<open>0\<close> or \<open>1\<close> (\<open>result != 0\<close>).\<close>

definition vb2_safe_memcmp :: "byte_ptr \<Rightarrow> byte_ptr \<Rightarrow> nat \<Rightarrow> 32 word" where
  "vb2_safe_memcmp s1 s2 size' =
     (if 0 = size' then 0
      else if safe_memcmp_loop s1 s2 size' 0 = 0 then 0 else 1)"

text \<open>The first \<open>n\<close> bytes a pointer points at.\<close>

definition bytes_at :: "byte_ptr \<Rightarrow> nat \<Rightarrow> 8 word list" where
  "bytes_at p n = map p [0..<n]"

subsection \<open>Work buffer\<close>

text \<open>
  \<open>struct vb2_workbuf\<close>: the current top \<open>buf\<close> (a pointer, as the word of its
  address, a \<open>'a word\<close> for the platform's pointer width \<open>'a\<close>) and the bytes left,
  \<open>uint32_t size\<close>. \<open>NULL\<close> is the address \<open>0\<close>.

  \<open>vb2_wb_round_up\<close> is declared in 2common.h, a header outside the files verified
  here; the functions below take it as the parameter \<open>round_up\<close>.
\<close>

record 'p vb2_workbuf =
  wb_buf :: 'p
  wb_size :: "32 word"

definition NULL :: "'a::len word" where
  "NULL = 0"

definition vb2_workbuf_alloc ::
  "(32 word \<Rightarrow> 32 word) \<Rightarrow> 'a::len word vb2_workbuf \<Rightarrow> 32 word
     \<Rightarrow> 'a word \<times> 'a word vb2_workbuf" where
  "vb2_workbuf_alloc round_up wb size' =
     (let ptr = wb_buf wb;
          size' = round_up size'
      in if size' > wb_size wb then (NULL, wb)
         else (ptr, wb\<lparr>wb_buf := wb_buf wb + ucast size', wb_size := wb_size wb - size'\<rparr>))"

definition vb2_workbuf_free ::
  "(32 word \<Rightarrow> 32 word) \<Rightarrow> 'a::len word vb2_workbuf \<Rightarrow> 32 word
     \<Rightarrow> 'a word vb2_workbuf" where
  "vb2_workbuf_free round_up wb size' =
     (let size' = round_up size'
      in wb\<lparr>wb_buf := wb_buf wb - ucast size', wb_size := wb_size wb + size'\<rparr>)"

definition vb2_workbuf_realloc ::
  "(32 word \<Rightarrow> 32 word) \<Rightarrow> 'a::len word vb2_workbuf \<Rightarrow> 32 word \<Rightarrow> 32 word
     \<Rightarrow> 'a word \<times> 'a word vb2_workbuf" where
  "vb2_workbuf_realloc round_up wb oldsize newsize =
     vb2_workbuf_alloc round_up (vb2_workbuf_free round_up wb oldsize) newsize"

text \<open>
  Modelled from the spec: \<open>vb2_wb_round_up\<close> (2common.h is missing) as
  \<open>round_up(n, ALIGN)\<close> in 32-bit arithmetic, for a power of two \<open>ALIGN\<close>. It is used for
  concrete instances only.
\<close>

definition wb_round_up :: "32 word \<Rightarrow> 32 word \<Rightarrow> 32 word" where
  "wb_round_up align v = (v + align - 1) AND NOT (align - 1)"

subsection \<open>Bounds of a member inside its parent\<close>

text \<open>
  \<open>uintptr_t\<close> and \<open>size_t\<close> are \<open>'a word\<close>; a \<open>ptrdiff_t\<close> is the same word read
  with \<open>sint\<close>, so that a comparison of two \<open>ptrdiff_t\<close> values is a comparison of their
  \<open>sint\<close>, and a comparison of a \<open>ptrdiff_t\<close> with a \<open>size_t\<close> is the unsigned
  comparison of the words (the usual arithmetic conversions). Sums are taken modulo
  \<open>2 ^ LENGTH('a)\<close>, also the one sum of two \<open>ptrdiff_t\<close> values
  (\<open>member_offs + member_data_offset\<close>), whose overflow C leaves undefined and the
  machine wraps around.
\<close>

definition vb2_offset_of :: "'a::len word \<Rightarrow> 'a word \<Rightarrow> 'a word" where
  "vb2_offset_of base ptr = ptr - base"

definition vb2_verify_member_inside ::
  "'a::len word \<Rightarrow> 'a word \<Rightarrow> 'a word \<Rightarrow> 'a word \<Rightarrow> 'a word \<Rightarrow> 'a word \<Rightarrow> vb2_error" where
  "vb2_verify_member_inside parent parent_size member member_size
       member_data_offset member_data_size =
     (let parent_end = parent + parent_size;
          member_offs = vb2_offset_of parent member;
          member_end_offs = member_offs + member_size;
          data_offs = member_offs + member_data_offset;
          data_end_offs = data_offs + member_data_size
      in if parent_end < parent then VB2_ERROR_INSIDE_PARENT_WRAPS
         else if sint member_end_offs < sint member_offs then VB2_ERROR_INSIDE_MEMBER_WRAPS
         else if sint member_offs < 0 \<or> member_offs > parent_size
                 \<or> member_end_offs > parent_size
           then VB2_ERROR_INSIDE_MEMBER_OUTSIDE
         else if member_data_size > 0 \<and> sint data_offs < sint member_end_offs
           then VB2_ERROR_INSIDE_DATA_OVERLAP
         else if sint data_end_offs < sint data_offs then VB2_ERROR_INSIDE_DATA_WRAPS
         else if sint data_offs < 0 \<or> data_offs > parent_size
                 \<or> data_end_offs > parent_size
           then VB2_ERROR_INSIDE_DATA_OUTSIDE
         else VB2_SUCCESS)"



subsection \<open>Signature verification\<close>

text \<open>
  The key and signature structures are declared in headers outside the files verified
  here; the records hold the fields 2common.c reads. A key carries more (the modulus
  and its precomputed values), which the record scheme leaves open. \<open>sig_data\<close> is what
  \<open>vb2_signature_data_mutable\<close> points at.
\<close>

record vb2_public_key =
  sig_alg :: nat
  hash_alg :: nat
  allow_hwcrypto :: bool

record vb2_signature =
  sig_size :: "32 word"
  data_size :: "32 word"
  sig_data :: byte_ptr

text \<open>
  The routines 2common.c calls but does not define are parameters: the table lookups
  \<open>vb2_rsa_sig_size\<close> and \<open>vb2_digest_size\<close>, the software digest and RSA check, and the
  platform's hardware crypto callbacks. The hardware keeps a state \<open>'h\<close> of its own
  between calls; every call of a digest or RSA routine is also written to a log, so that
  "this path is not taken" is a statement about the log.
\<close>

datatype crypto_call =
    CALL_HWCRYPTO_RSA_VERIFY_DIGEST
  | CALL_RSA_VERIFY_DIGEST
  | CALL_HWCRYPTO_DIGEST_INIT
  | CALL_HWCRYPTO_DIGEST_EXTEND
  | CALL_HWCRYPTO_DIGEST_FINALIZE
  | CALL_DIGEST_BUFFER

record 'h crypto_state =
  hw :: 'h
  crypto_calls :: "crypto_call list"

record ('h, 'p, 'k) crypto_ops =
  vb2_rsa_sig_size :: "nat \<Rightarrow> 32 word"
  vb2_digest_size :: "nat \<Rightarrow> 32 word"
  vb2_wb_round_up :: "32 word \<Rightarrow> 32 word"
  vb2ex_hwcrypto_rsa_verify_digest ::
    "'k vb2_public_key_scheme \<Rightarrow> byte_ptr \<Rightarrow> byte_ptr \<Rightarrow> 'h \<Rightarrow> vb2_error \<times> 'h"
  vb2_rsa_verify_digest ::
    "'k vb2_public_key_scheme \<Rightarrow> byte_ptr \<Rightarrow> byte_ptr \<Rightarrow> 'p vb2_workbuf \<Rightarrow> vb2_error"
  vb2ex_hwcrypto_digest_init :: "nat \<Rightarrow> 32 word \<Rightarrow> 'h \<Rightarrow> vb2_error \<times> 'h"
  vb2ex_hwcrypto_digest_extend :: "byte_ptr \<Rightarrow> 32 word \<Rightarrow> 'h \<Rightarrow> vb2_error \<times> 'h"
  vb2ex_hwcrypto_digest_finalize :: "32 word \<Rightarrow> 'h \<Rightarrow> (vb2_error \<times> byte_ptr) \<times> 'h"
  vb2_digest_buffer :: "byte_ptr \<Rightarrow> 32 word \<Rightarrow> nat \<Rightarrow> 32 word \<Rightarrow> vb2_error \<times> byte_ptr"

text \<open>A hardware callback runs on the hardware state and is logged.\<close>

definition hw_call ::
  "crypto_call \<Rightarrow> ('h \<Rightarrow> 'r \<times> 'h) \<Rightarrow> 'h crypto_state \<Rightarrow> 'r \<times> 'h crypto_state" where
  "hw_call c f s =
     (case f (hw s) of (r, h') \<Rightarrow> (r, s\<lparr>hw := h', crypto_calls := crypto_calls s @ [c]\<rparr>))"

text \<open>A software routine computes its result from its arguments and is logged.\<close>

definition sw_call :: "crypto_call \<Rightarrow> 'r \<Rightarrow> 'h crypto_state \<Rightarrow> 'r \<times> 'h crypto_state" where
  "sw_call c r s = (r, s\<lparr>crypto_calls := crypto_calls s @ [c]\<rparr>)"

definition vb2_signature_data_mutable :: "vb2_signature \<Rightarrow> byte_ptr" where
  "vb2_signature_data_mutable sig = sig_data sig"

definition vb2_verify_digest ::
  "('h, 'a::len word, 'k) crypto_ops \<Rightarrow> 'k vb2_public_key_scheme \<Rightarrow> vb2_signature \<Rightarrow> byte_ptr
     \<Rightarrow> 'a word vb2_workbuf \<Rightarrow> 'h crypto_state \<Rightarrow> vb2_error \<times> 'h crypto_state" where
  "vb2_verify_digest ops key sig digest wb s =
     (let sig_data = vb2_signature_data_mutable sig
      in if sig_size sig \<noteq> vb2_rsa_sig_size ops (sig_alg key)
           then (VB2_ERROR_VDATA_SIG_SIZE, s)
         else if allow_hwcrypto key then
           (case hw_call CALL_HWCRYPTO_RSA_VERIFY_DIGEST
                   (vb2ex_hwcrypto_rsa_verify_digest ops key sig_data digest) s of
              (rv, s1) \<Rightarrow>
                if rv \<noteq> VB2_ERROR_EX_HWCRYPTO_UNSUPPORTED then (rv, s1)
                else sw_call CALL_RSA_VERIFY_DIGEST
                       (vb2_rsa_verify_digest ops key sig_data digest wb) s1)
         else sw_call CALL_RSA_VERIFY_DIGEST
                (vb2_rsa_verify_digest ops key sig_data digest wb) s)"

text \<open>
  \<open>VB2_TRY(expr)\<close> returns the value of \<open>expr\<close> from the enclosing function when it is
  not \<open>VB2_SUCCESS\<close>; below, each use is the test \<open>rv \<noteq> VB2_SUCCESS\<close> after the call.
  The digest is written at the pointer the work buffer hands out; the model passes the
  digest bytes the digest routine produced on to \<open>vb2_verify_digest\<close>.
\<close>

definition vb2_verify_data ::
  "('h, 'a::len word, 'k) crypto_ops \<Rightarrow> byte_ptr \<Rightarrow> 32 word \<Rightarrow> vb2_signature
     \<Rightarrow> 'k vb2_public_key_scheme \<Rightarrow> 'a word vb2_workbuf \<Rightarrow> 'h crypto_state
     \<Rightarrow> vb2_error \<times> 'h crypto_state" where
  "vb2_verify_data ops data size' sig key wb s =
     (let wblocal = wb
      in if data_size sig > size' then (VB2_ERROR_VDATA_NOT_ENOUGH_DATA, s)
         else
           let digest_size = vb2_digest_size ops (hash_alg key)
           in if digest_size = 0 then (VB2_ERROR_VDATA_DIGEST_SIZE, s)
              else
                case vb2_workbuf_alloc (vb2_wb_round_up ops) wblocal digest_size of
                  (digest_ptr, wblocal) \<Rightarrow>
                    if digest_ptr = NULL then (VB2_ERROR_VDATA_WORKBUF_DIGEST, s)
                    else if allow_hwcrypto key then
                      (case hw_call CALL_HWCRYPTO_DIGEST_INIT
                              (vb2ex_hwcrypto_digest_init ops (hash_alg key) (data_size sig)) s of
                         (rv, s1) \<Rightarrow>
                           if rv = VB2_SUCCESS then
                             (case hw_call CALL_HWCRYPTO_DIGEST_EXTEND
                                     (vb2ex_hwcrypto_digest_extend ops data (data_size sig)) s1 of
                                (rv2, s2) \<Rightarrow>
                                  if rv2 \<noteq> VB2_SUCCESS then (rv2, s2)
                                  else
                                    case hw_call CALL_HWCRYPTO_DIGEST_FINALIZE
                                           (vb2ex_hwcrypto_digest_finalize ops digest_size) s2 of
                                      ((rv3, digest), s3) \<Rightarrow>
                                        if rv3 \<noteq> VB2_SUCCESS then (rv3, s3)
                                        else vb2_verify_digest ops key sig digest wblocal s3)
                           else if rv = VB2_ERROR_EX_HWCRYPTO_UNSUPPORTED then
                             (case sw_call CALL_DIGEST_BUFFER
                                     (vb2_digest_buffer ops data (data_size sig) (hash_alg key)
                                        digest_size) s1 of
                                ((rv2, digest), s2) \<Rightarrow>
                                  if rv2 \<noteq> VB2_SUCCESS then (rv2, s2)
                                  else vb2_verify_digest ops key sig digest wblocal s2)
                           else (rv, s1))
                    else
                      (case sw_call CALL_DIGEST_BUFFER
                              (vb2_digest_buffer ops data (data_size sig) (hash_alg key)
                                 digest_size) s of
                         ((rv2, digest), s2) \<Rightarrow>
                           if rv2 \<noteq> VB2_SUCCESS then (rv2, s2)
                           else vb2_verify_digest ops key sig digest wblocal s2))"

text \<open>
  For stating what \<open>vb2_verify_data\<close> can return: \<open>E\<close> holds every failure the
  digest and RSA routines report. The two hardware routines that 2common.c asks
  whether they are supported (digest init, RSA verify) may also answer "unsupported".
\<close>

definition crypto_failures_within :: "('h, 'p, 'k) crypto_ops \<Rightarrow> vb2_error set \<Rightarrow> bool" where
  "crypto_failures_within ops E =
     ((\<forall>alg n h. fst (vb2ex_hwcrypto_digest_init ops alg n h)
          \<in> insert VB2_SUCCESS (insert VB2_ERROR_EX_HWCRYPTO_UNSUPPORTED E))
      \<and> (\<forall>d n h. fst (vb2ex_hwcrypto_digest_extend ops d n h) \<in> insert VB2_SUCCESS E)
      \<and> (\<forall>n h. fst (fst (vb2ex_hwcrypto_digest_finalize ops n h)) \<in> insert VB2_SUCCESS E)
      \<and> (\<forall>d n alg m. fst (vb2_digest_buffer ops d n alg m) \<in> insert VB2_SUCCESS E)
      \<and> (\<forall>k sg d h. fst (vb2ex_hwcrypto_rsa_verify_digest ops k sg d h)
          \<in> insert VB2_SUCCESS (insert VB2_ERROR_EX_HWCRYPTO_UNSUPPORTED E))
      \<and> (\<forall>k sg d w. vb2_rsa_verify_digest ops k sg d w \<in> insert VB2_SUCCESS E))"

section \<open>EC software sync, firmware/2lib/2ec_sync.c\<close>

subsection \<open>State\<close>

text \<open>
  The flags of \<open>vb2_shared_data.flags\<close> that 2ec_sync.c uses, as 2struct.h gives them.
\<close>

definition VB2_SD_FLAG_ECSYNC_EC_RO :: "32 word" where
  "VB2_SD_FLAG_ECSYNC_EC_RO = push_bit 3 1"

definition VB2_SD_FLAG_ECSYNC_EC_RW :: "32 word" where
  "VB2_SD_FLAG_ECSYNC_EC_RW = push_bit 4 1"

definition VB2_SD_FLAG_ECSYNC_EC_IN_RW :: "32 word" where
  "VB2_SD_FLAG_ECSYNC_EC_IN_RW = push_bit 6 1"

definition VB2_SD_FLAG_DISPLAY_AVAILABLE :: "32 word" where
  "VB2_SD_FLAG_DISPLAY_AVAILABLE = push_bit 8 1"

text \<open>
  The constants 2ec_sync.c takes from headers outside the files verified here
  (context flags, the GBB flag, the sync-complete bit, the recovery reasons) are the
  fields of a record the functions take as the parameter \<open>K\<close>. The context and GBB flags
  and the sync-complete bit are enumerators, so each is a value of type \<open>int\<close>: masking
  with one and storing the result in an \<open>int\<close> (\<open>is_rw_ab\<close>) keeps whether it is zero.
\<close>

record vb2_constants =
  VB2_CONTEXT_RECOVERY_MODE :: "64 word"
  VB2_CONTEXT_EC_SYNC_SUPPORTED :: "64 word"
  VB2_CONTEXT_EC_SYNC_SLOW :: "64 word"
  VB2_CONTEXT_EC_EFS :: "64 word"
  VB2_GBB_FLAG_DISABLE_EC_SOFTWARE_SYNC :: "32 word"
  VB2_SD_STATUS_EC_SYNC_COMPLETE :: "32 word"
  VB2_RECOVERY_EC_SOFTWARE_SYNC :: "32 word"
  VB2_RECOVERY_EC_UNKNOWN_IMAGE :: "32 word"
  VB2_RECOVERY_EC_HASH_FAILED :: "32 word"
  VB2_RECOVERY_EC_EXPECTED_HASH :: "32 word"
  VB2_RECOVERY_EC_HASH_SIZE :: "32 word"
  VB2_RECOVERY_EC_UPDATE :: "32 word"
  VB2_RECOVERY_EC_JUMP_RW :: "32 word"
  VB2_RECOVERY_EC_PROTECT :: "32 word"

datatype vb2_firmware_selection =
    VB_SELECT_FIRMWARE_READONLY
  | VB_SELECT_FIRMWARE_EC_ACTIVE
  | VB_SELECT_FIRMWARE_EC_UPDATE

datatype vb2_nv_param =
    VB2_NV_RECOVERY_REQUEST
  | VB2_NV_DISPLAY_REQUEST
  | VB2_NV_TRY_RO_SYNC

text \<open>Every call that leaves 2ec_sync.c for the platform is written to a log.\<close>

datatype ec_call =
    EC_RUNNING_RW
  | EC_HASH_IMAGE vb2_firmware_selection
  | EC_GET_EXPECTED_IMAGE_HASH vb2_firmware_selection
  | EC_UPDATE_IMAGE vb2_firmware_selection
  | EC_JUMP_TO_RW
  | EC_PROTECT vb2_firmware_selection
  | EC_DISABLE_JUMP
  | EC_VBOOT_DONE
  | DISPLAY_SCREEN_WAIT

text \<open>
  What a \<open>struct vb2_context *ctx\<close> reaches: the context flags, the shared data
  (\<open>vb2_get_sd\<close>: its flags, status and recovery reason), the GBB flags (\<open>vb2_get_gbb\<close>),
  the NV record, and beyond it the EC and display, whose state \<open>'e\<close> only the platform
  callbacks read and change.
\<close>

record 'e vb2_context =
  ctx_flags :: "64 word"
  sd_flags :: "32 word"
  sd_status :: "32 word"
  sd_recovery_reason :: "32 word"
  gbb_flags :: "32 word"
  nvdata :: "vb2_nv_param \<Rightarrow> 32 word"
  nv_dirty :: bool
  ec :: 'e
  ec_calls :: "ec_call list"

text \<open>
  Modelled from the spec: \<open>vb2_nv_get\<close> and \<open>vb2_nv_set\<close> (2nvstorage.c is missing).
  A field read back is the value written; \<open>set\<close> writes only if the new value differs,
  and then marks the record dirty.
\<close>

definition vb2_nv_get :: "'e vb2_context \<Rightarrow> vb2_nv_param \<Rightarrow> 32 word" where
  "vb2_nv_get ctx param = nvdata ctx param"

definition vb2_nv_set :: "'e vb2_context \<Rightarrow> vb2_nv_param \<Rightarrow> 32 word \<Rightarrow> 'e vb2_context" where
  "vb2_nv_set ctx param v =
     (if nvdata ctx param = v then ctx
      else ctx\<lparr>nvdata := (nvdata ctx)(param := v), nv_dirty := True\<rparr>)"

text \<open>
  The platform callbacks. The hash callbacks hand back a pointer to the hash and its size
  (an \<open>int\<close>) through their out-parameters, \<open>vb2ex_ec_running_rw\<close> the \<open>int in_rw\<close>.
  \<open>VbDisplayScreen\<close> is only called for the WAIT screen. Of the callbacks only
  \<open>vb2ex_ec_vboot_done\<close> and \<open>VbDisplayScreen\<close> are handed the context; they are
  taken to read it and to act on the EC and display only.
\<close>

record 'e ec_ops =
  vb2ex_ec_running_rw :: "'e \<Rightarrow> (vb2_error \<times> 32 word) \<times> 'e"
  vb2ex_ec_hash_image ::
    "vb2_firmware_selection \<Rightarrow> 'e \<Rightarrow> (vb2_error \<times> byte_ptr \<times> 32 word) \<times> 'e"
  vb2ex_ec_get_expected_image_hash ::
    "vb2_firmware_selection \<Rightarrow> 'e \<Rightarrow> (vb2_error \<times> byte_ptr \<times> 32 word) \<times> 'e"
  vb2ex_ec_update_image :: "vb2_firmware_selection \<Rightarrow> 'e \<Rightarrow> vb2_error \<times> 'e"
  vb2ex_ec_jump_to_rw :: "'e \<Rightarrow> vb2_error \<times> 'e"
  vb2ex_ec_protect :: "vb2_firmware_selection \<Rightarrow> 'e \<Rightarrow> vb2_error \<times> 'e"
  vb2ex_ec_disable_jump :: "'e \<Rightarrow> vb2_error \<times> 'e"
  vb2ex_ec_vboot_done :: "'e vb2_context \<Rightarrow> 'e \<Rightarrow> vb2_error \<times> 'e"
  VbDisplayScreen :: "'e \<Rightarrow> vb2_error \<times> 'e"

definition ec_op :: "ec_call \<Rightarrow> ('e \<Rightarrow> 'r \<times> 'e) \<Rightarrow> 'e vb2_context \<Rightarrow> 'r \<times> 'e vb2_context" where
  "ec_op c f ctx =
     (case f (ec ctx) of (r, e') \<Rightarrow> (r, ctx\<lparr>ec := e', ec_calls := ec_calls ctx @ [c]\<rparr>))"

text \<open>An \<open>int\<close> passed where a \<open>size_t\<close> is expected is sign-extended.\<close>

definition size_t_of_int :: "32 word \<Rightarrow> nat" where
  "size_t_of_int n = unat (scast n :: 64 word)"

subsection \<open>The functions\<close>

definition SYNC_FLAG :: "vb2_firmware_selection \<Rightarrow> 32 word" where
  "SYNC_FLAG select =
     (if select = VB_SELECT_FIRMWARE_READONLY then VB2_SD_FLAG_ECSYNC_EC_RO
      else VB2_SD_FLAG_ECSYNC_EC_RW)"

definition check_reboot_for_display :: "'e vb2_context \<Rightarrow> bool \<times> 'e vb2_context" where
  "check_reboot_for_display ctx =
     (if sd_flags ctx AND VB2_SD_FLAG_DISPLAY_AVAILABLE = 0
      then (True, vb2_nv_set ctx VB2_NV_DISPLAY_REQUEST 1)
      else (False, ctx))"

definition display_wait_screen :: "'e ec_ops \<Rightarrow> 'e vb2_context \<Rightarrow> 'e vb2_context" where
  "display_wait_screen ops ctx = snd (ec_op DISPLAY_SCREEN_WAIT (VbDisplayScreen ops) ctx)"

definition request_recovery :: "'e vb2_context \<Rightarrow> 32 word \<Rightarrow> 'e vb2_context" where
  "request_recovery ctx recovery_request =
     vb2_nv_set ctx VB2_NV_RECOVERY_REQUEST recovery_request"

definition protect_ec ::
  "'e ec_ops \<Rightarrow> vb2_constants \<Rightarrow> vb2_firmware_selection \<Rightarrow> 'e vb2_context
     \<Rightarrow> vb2_error \<times> 'e vb2_context" where
  "protect_ec ops K select ctx =
     (case ec_op (EC_PROTECT select) (vb2ex_ec_protect ops select) ctx of
        (rv, ctx1) \<Rightarrow>
          if rv = VBERROR_EC_REBOOT_TO_RO_REQUIRED then (rv, ctx1)
          else if rv \<noteq> VB2_SUCCESS
            then (rv, request_recovery ctx1 (VB2_RECOVERY_EC_PROTECT K))
          else (rv, ctx1))"

definition check_ec_hash ::
  "'e ec_ops \<Rightarrow> vb2_constants \<Rightarrow> vb2_firmware_selection \<Rightarrow> 'e vb2_context
     \<Rightarrow> vb2_error \<times> 'e vb2_context" where
  "check_ec_hash ops K select ctx =
     (case ec_op (EC_HASH_IMAGE select) (vb2ex_ec_hash_image ops select) ctx of
        ((rv, ec_hash, ec_hash_size), ctx1) \<Rightarrow>
          if rv \<noteq> VB2_SUCCESS
            then (VB2_ERROR_EC_HASH_IMAGE,
                  request_recovery ctx1 (VB2_RECOVERY_EC_HASH_FAILED K))
          else
            case ec_op (EC_GET_EXPECTED_IMAGE_HASH select)
                   (vb2ex_ec_get_expected_image_hash ops select) ctx1 of
              ((rv, hash, hash_size), ctx2) \<Rightarrow>
                if rv \<noteq> VB2_SUCCESS
                  then (VB2_ERROR_EC_HASH_EXPECTED,
                        request_recovery ctx2 (VB2_RECOVERY_EC_EXPECTED_HASH K))
                else if ec_hash_size \<noteq> hash_size
                  then (VB2_ERROR_EC_HASH_SIZE,
                        request_recovery ctx2 (VB2_RECOVERY_EC_HASH_SIZE K))
                else if vb2_safe_memcmp ec_hash hash (size_t_of_int hash_size) \<noteq> 0
                  then (VB2_SUCCESS, ctx2\<lparr>sd_flags := sd_flags ctx2 OR SYNC_FLAG select\<rparr>)
                else (VB2_SUCCESS, ctx2))"

definition update_ec ::
  "'e ec_ops \<Rightarrow> vb2_constants \<Rightarrow> vb2_firmware_selection \<Rightarrow> 'e vb2_context
     \<Rightarrow> vb2_error \<times> 'e vb2_context" where
  "update_ec ops K select ctx =
     (case ec_op (EC_UPDATE_IMAGE select) (vb2ex_ec_update_image ops select) ctx of
        (rv, ctx1) \<Rightarrow>
          if rv \<noteq> VB2_SUCCESS then
            (if rv \<noteq> VBERROR_EC_REBOOT_TO_RO_REQUIRED
               then (rv, request_recovery ctx1 (VB2_RECOVERY_EC_UPDATE K))
             else (rv, ctx1))
          else
            case check_ec_hash ops K select
                   (ctx1\<lparr>sd_flags := sd_flags ctx1 AND NOT (SYNC_FLAG select)\<rparr>) of
              (rv2, ctx2) \<Rightarrow>
                if rv2 \<noteq> VB2_SUCCESS then (VBERROR_EC_REBOOT_TO_RO_REQUIRED, ctx2)
                else if sd_flags ctx2 AND SYNC_FLAG select \<noteq> 0
                  then (VBERROR_EC_REBOOT_TO_RO_REQUIRED,
                        request_recovery ctx2 (VB2_RECOVERY_EC_UPDATE K))
                else (VB2_SUCCESS, ctx2))"

definition check_ec_active ::
  "'e ec_ops \<Rightarrow> vb2_constants \<Rightarrow> 'e vb2_context \<Rightarrow> vb2_error \<times> 'e vb2_context" where
  "check_ec_active ops K ctx =
     (case ec_op EC_RUNNING_RW (vb2ex_ec_running_rw ops) ctx of
        ((rv, in_rw), ctx1) \<Rightarrow>
          if rv \<noteq> VB2_SUCCESS
            then (VBERROR_EC_REBOOT_TO_RO_REQUIRED,
                  request_recovery ctx1 (VB2_RECOVERY_EC_UNKNOWN_IMAGE K))
          else if in_rw \<noteq> 0
            then (VB2_SUCCESS, ctx1\<lparr>sd_flags := sd_flags ctx1 OR VB2_SD_FLAG_ECSYNC_EC_IN_RW\<rparr>)
          else (VB2_SUCCESS, ctx1))"

definition RO_RETRIES :: nat where
  "RO_RETRIES = 2"

text \<open>
  \<open>sync_ec\<close> is a sequence of four blocks, each of which either returns from the
  function (\<open>Some rv\<close>) or falls through to the next (\<open>None\<close>). The first: "Update the RW
  Image".
\<close>

definition sync_ec_update_rw ::
  "'e ec_ops \<Rightarrow> vb2_constants \<Rightarrow> vb2_firmware_selection \<Rightarrow> bool \<Rightarrow> 'e vb2_context
     \<Rightarrow> vb2_error option \<times> 'e vb2_context" where
  "sync_ec_update_rw ops K select_rw is_rw_ab ctx =
     (if sd_flags ctx AND SYNC_FLAG select_rw \<noteq> 0 then
        (case update_ec ops K select_rw ctx of
           (rv, ctx1) \<Rightarrow>
             if VB2_SUCCESS \<noteq> rv then (Some VBERROR_EC_REBOOT_TO_RO_REQUIRED, ctx1)
             else if is_rw_ab then (Some VBERROR_EC_REBOOT_TO_SWITCH_RW, ctx1)
             else (None, ctx1))
      else (None, ctx))"

text \<open>"Tell EC to jump to its RW image".\<close>

definition sync_ec_jump_rw ::
  "'e ec_ops \<Rightarrow> vb2_constants \<Rightarrow> 'e vb2_context \<Rightarrow> vb2_error option \<times> 'e vb2_context" where
  "sync_ec_jump_rw ops K ctx =
     (if sd_flags ctx AND VB2_SD_FLAG_ECSYNC_EC_IN_RW = 0 then
        (case ec_op EC_JUMP_TO_RW (vb2ex_ec_jump_to_rw ops) ctx of
           (rv, ctx1) \<Rightarrow>
             if rv \<noteq> VB2_SUCCESS then
               (if rv \<noteq> VBERROR_EC_REBOOT_TO_RO_REQUIRED
                  then (Some VBERROR_EC_REBOOT_TO_RO_REQUIRED,
                        request_recovery ctx1 (VB2_RECOVERY_EC_JUMP_RW K))
                else (Some VBERROR_EC_REBOOT_TO_RO_REQUIRED, ctx1))
             else (None, ctx1))
      else (None, ctx))"

text \<open>
  The loop \<open>for (num_tries = 0; num_tries < RO_RETRIES; num_tries++)\<close> that leaves with
  \<open>break\<close> when \<open>update_ec\<close> succeeds; it yields the final \<open>num_tries\<close>.
\<close>

function ro_update_loop ::
  "'e ec_ops \<Rightarrow> vb2_constants \<Rightarrow> nat \<Rightarrow> 'e vb2_context \<Rightarrow> nat \<times> 'e vb2_context" where
  "ro_update_loop ops K num_tries ctx =
     (if num_tries < RO_RETRIES then
        (case update_ec ops K VB_SELECT_FIRMWARE_READONLY ctx of
           (rv, ctx1) \<Rightarrow>
             if VB2_SUCCESS = rv then (num_tries, ctx1)
             else ro_update_loop ops K (num_tries + 1) ctx1)
      else (num_tries, ctx))"
  by pat_completeness auto
termination
  by (relation "measure (\<lambda>(ops, K, num_tries, ctx). RO_RETRIES - num_tries)") auto

declare ro_update_loop.simps [simp del]

text \<open>"Might need to update EC-RO".\<close>

definition sync_ec_update_ro ::
  "'e ec_ops \<Rightarrow> vb2_constants \<Rightarrow> 'e vb2_context \<Rightarrow> vb2_error option \<times> 'e vb2_context" where
  "sync_ec_update_ro ops K ctx =
     (if sd_flags ctx AND VB2_SD_FLAG_ECSYNC_EC_RO \<noteq> 0 then
        (let ctx1 = vb2_nv_set ctx VB2_NV_TRY_RO_SYNC 0;
             recovery_request = vb2_nv_get ctx1 VB2_NV_RECOVERY_REQUEST
         in case ro_update_loop ops K 0 ctx1 of
              (num_tries, ctx2) \<Rightarrow>
                if num_tries = RO_RETRIES then (Some VBERROR_EC_REBOOT_TO_RO_REQUIRED, ctx2)
                else if num_tries \<noteq> 0 then (None, request_recovery ctx2 recovery_request)
                else (None, ctx2))
      else (None, ctx))"

text \<open>"Protect RO flash", "Protect RW flash", "Disable further sysjumps".\<close>

definition sync_ec_protect ::
  "'e ec_ops \<Rightarrow> vb2_constants \<Rightarrow> vb2_firmware_selection \<Rightarrow> 'e vb2_context
     \<Rightarrow> vb2_error \<times> 'e vb2_context" where
  "sync_ec_protect ops K select_rw ctx =
     (case protect_ec ops K VB_SELECT_FIRMWARE_READONLY ctx of
        (rv, ctx1) \<Rightarrow>
          if rv \<noteq> VB2_SUCCESS then (rv, ctx1)
          else
            case protect_ec ops K select_rw ctx1 of
              (rv, ctx2) \<Rightarrow>
                if rv \<noteq> VB2_SUCCESS then (rv, ctx2)
                else
                  case ec_op EC_DISABLE_JUMP (vb2ex_ec_disable_jump ops) ctx2 of
                    (rv, ctx3) \<Rightarrow>
                      if rv \<noteq> VB2_SUCCESS
                        then (VBERROR_EC_REBOOT_TO_RO_REQUIRED,
                              request_recovery ctx3 (VB2_RECOVERY_EC_SOFTWARE_SYNC K))
                      else (rv, ctx3))"

definition sync_ec ::
  "'e ec_ops \<Rightarrow> vb2_constants \<Rightarrow> 'e vb2_context \<Rightarrow> vb2_error \<times> 'e vb2_context" where
  "sync_ec ops K ctx =
     (let is_rw_ab = (ctx_flags ctx AND VB2_CONTEXT_EC_EFS K \<noteq> 0);
          select_rw = (if is_rw_ab then VB_SELECT_FIRMWARE_EC_UPDATE
                       else VB_SELECT_FIRMWARE_EC_ACTIVE)
      in case sync_ec_update_rw ops K select_rw is_rw_ab ctx of
           (Some rv, ctx1) \<Rightarrow> (rv, ctx1)
         | (None, ctx1) \<Rightarrow>
             case sync_ec_jump_rw ops K ctx1 of
               (Some rv, ctx2) \<Rightarrow> (rv, ctx2)
             | (None, ctx2) \<Rightarrow>
                 case sync_ec_update_ro ops K ctx2 of
                   (Some rv, ctx3) \<Rightarrow> (rv, ctx3)
                 | (None, ctx3) \<Rightarrow> sync_ec_protect ops K select_rw ctx3)"

definition ec_sync_phase1 ::
  "'e ec_ops \<Rightarrow> vb2_constants \<Rightarrow> 'e vb2_context \<Rightarrow> vb2_error \<times> 'e vb2_context" where
  "ec_sync_phase1 ops K ctx =
     (if ctx_flags ctx AND VB2_CONTEXT_EC_SYNC_SUPPORTED K = 0 then (VB2_SUCCESS, ctx)
      else if gbb_flags ctx AND VB2_GBB_FLAG_DISABLE_EC_SOFTWARE_SYNC K \<noteq> 0
        then (VB2_SUCCESS, ctx)
      else
        case check_ec_active ops K ctx of
          (rv, ctx1) \<Rightarrow>
            if rv \<noteq> VB2_SUCCESS then (VBERROR_EC_REBOOT_TO_RO_REQUIRED, ctx1)
            else
              case check_ec_hash ops K VB_SELECT_FIRMWARE_EC_ACTIVE ctx1 of
                (rv, ctx2) \<Rightarrow>
                  if rv \<noteq> VB2_SUCCESS then (VBERROR_EC_REBOOT_TO_RO_REQUIRED, ctx2)
                  else
                    case (if vb2_nv_get ctx2 VB2_NV_TRY_RO_SYNC \<noteq> 0
                          then check_ec_hash ops K VB_SELECT_FIRMWARE_READONLY ctx2
                          else (VB2_SUCCESS, ctx2)) of
                      (rv, ctx3) \<Rightarrow>
                        if rv \<noteq> VB2_SUCCESS then (VBERROR_EC_REBOOT_TO_RO_REQUIRED, ctx3)
                        else if sd_flags ctx3 AND VB2_SD_FLAG_ECSYNC_EC_RW \<noteq> 0
                                \<and> sd_flags ctx3 AND VB2_SD_FLAG_ECSYNC_EC_IN_RW \<noteq> 0
                                \<and> ctx_flags ctx3 AND VB2_CONTEXT_EC_EFS K = 0
                          then (VBERROR_EC_REBOOT_TO_RO_REQUIRED, ctx3)
                        else (VB2_SUCCESS, ctx3))"

definition ec_will_update_slowly :: "vb2_constants \<Rightarrow> 'e vb2_context \<Rightarrow> bool" where
  "ec_will_update_slowly K ctx =
     ((sd_flags ctx AND VB2_SD_FLAG_ECSYNC_EC_RO \<noteq> 0
        \<or> sd_flags ctx AND VB2_SD_FLAG_ECSYNC_EC_RW \<noteq> 0)
      \<and> ctx_flags ctx AND VB2_CONTEXT_EC_SYNC_SLOW K \<noteq> 0)"

definition ec_sync_allowed :: "vb2_constants \<Rightarrow> 'e vb2_context \<Rightarrow> bool" where
  "ec_sync_allowed K ctx =
     (if ctx_flags ctx AND VB2_CONTEXT_EC_SYNC_SUPPORTED K = 0 then False
      else if gbb_flags ctx AND VB2_GBB_FLAG_DISABLE_EC_SOFTWARE_SYNC K \<noteq> 0 then False
      else if sd_recovery_reason ctx \<noteq> 0 then False
      else True)"

definition ec_sync_phase2 ::
  "'e ec_ops \<Rightarrow> vb2_constants \<Rightarrow> 'e vb2_context \<Rightarrow> vb2_error \<times> 'e vb2_context" where
  "ec_sync_phase2 ops K ctx =
     (if ec_sync_allowed K ctx then sync_ec ops K ctx else (VB2_SUCCESS, ctx))"

definition vb2api_ec_sync ::
  "'e ec_ops \<Rightarrow> vb2_constants \<Rightarrow> 'e vb2_context \<Rightarrow> vb2_error \<times> 'e vb2_context" where
  "vb2api_ec_sync ops K ctx =
     (if sd_flags ctx AND VB2_SD_STATUS_EC_SYNC_COMPLETE K \<noteq> 0 then (VB2_SUCCESS, ctx)
      else if ctx_flags ctx AND VB2_CONTEXT_RECOVERY_MODE K \<noteq> 0 then (VB2_SUCCESS, ctx)
      else
        case ec_sync_phase1 ops K ctx of
          (phase1_rv, ctx1) \<Rightarrow>
            let need_wait_screen = ec_will_update_slowly K ctx1
            in case (if need_wait_screen then check_reboot_for_display ctx1
                     else (False, ctx1)) of
                 (reboot, ctx2) \<Rightarrow>
                   if reboot then (VBERROR_REBOOT_REQUIRED, ctx2)
                   else if phase1_rv \<noteq> VB2_SUCCESS then (phase1_rv, ctx2)
                   else
                     case ec_sync_phase2 ops K
                            (if need_wait_screen then display_wait_screen ops ctx2
                             else ctx2) of
                       (rv, ctx3) \<Rightarrow>
                         if rv \<noteq> VB2_SUCCESS then (rv, ctx3)
                         else
                           case ec_op EC_VBOOT_DONE (vb2ex_ec_vboot_done ops ctx3) ctx3 of
                             (rv, ctx4) \<Rightarrow>
                               if rv \<noteq> VB2_SUCCESS then (rv, ctx4)
                               else (VB2_SUCCESS,
                                     ctx4\<lparr>sd_flags := sd_flags ctx4
                                             OR VB2_SD_STATUS_EC_SYNC_COMPLETE K\<rparr>))"

subsection \<open>Auxiliary notions for stating the properties\<close>

text \<open>The RW image \<open>sync_ec\<close> selects.\<close>

definition sync_ec_select_rw :: "vb2_constants \<Rightarrow> 'e vb2_context \<Rightarrow> vb2_firmware_selection" where
  "sync_ec_select_rw K ctx =
     (if ctx_flags ctx AND VB2_CONTEXT_EC_EFS K \<noteq> 0 then VB_SELECT_FIRMWARE_EC_UPDATE
      else VB_SELECT_FIRMWARE_EC_ACTIVE)"

text \<open>
  The part of \<open>sync_ec\<close> before "Might need to update EC-RO": its first two blocks. It
  yields \<open>None\<close> and the state reached when \<open>sync_ec\<close> gets to the RO block.
\<close>

definition sync_ec_before_ro ::
  "'e ec_ops \<Rightarrow> vb2_constants \<Rightarrow> 'e vb2_context \<Rightarrow> vb2_error option \<times> 'e vb2_context" where
  "sync_ec_before_ro ops K ctx =
     (case sync_ec_update_rw ops K (sync_ec_select_rw K ctx)
             (ctx_flags ctx AND VB2_CONTEXT_EC_EFS K \<noteq> 0) ctx of
        (Some rv, ctx1) \<Rightarrow> (Some rv, ctx1)
      | (None, ctx1) \<Rightarrow> sync_ec_jump_rw ops K ctx1)"

text \<open>How often the log records a call of \<open>vb2ex_ec_update_image\<close> for the RO image.\<close>

definition ro_updates :: "'e vb2_context \<Rightarrow> nat" where
  "ro_updates ctx = count_list (ec_calls ctx) (EC_UPDATE_IMAGE VB_SELECT_FIRMWARE_READONLY)"

section \<open>Concrete instances\<close>

text \<open>
  A crypto platform whose hardware RSA engine answers \<open>hw_rv\<close>, whose hardware digest
  engine is unsupported, and whose software RSA check reports a digest mismatch; RSA
  signatures have 256 bytes and digests 32.
\<close>

definition example_crypto_ops :: "vb2_error \<Rightarrow> (nat, 64 word, unit) crypto_ops" where
  "example_crypto_ops hw_rv =
     \<lparr>vb2_rsa_sig_size = (\<lambda>alg. 256),
      vb2_digest_size = (\<lambda>alg. 32),
      vb2_wb_round_up = wb_round_up 16,
      vb2ex_hwcrypto_rsa_verify_digest = (\<lambda>key sig digest h. (hw_rv, Suc h)),
      vb2_rsa_verify_digest = (\<lambda>key sig digest wb. VB2_ERROR_RSA_DIGEST),
      vb2ex_hwcrypto_digest_init = (\<lambda>alg n h. (VB2_ERROR_EX_HWCRYPTO_UNSUPPORTED, h)),
      vb2ex_hwcrypto_digest_extend = (\<lambda>data n h. (VB2_SUCCESS, h)),
      vb2ex_hwcrypto_digest_finalize = (\<lambda>n h. ((VB2_SUCCESS, (\<lambda>i. 0)), h)),
      vb2_digest_buffer = (\<lambda>data n alg m. (VB2_SUCCESS, (\<lambda>i. 0)))\<rparr>"

definition example_key :: "bool \<Rightarrow> vb2_public_key" where
  "example_key hwcrypto = \<lparr>sig_alg = 0, hash_alg = 0, allow_hwcrypto = hwcrypto\<rparr>"

definition example_sig :: "32 word \<Rightarrow> 32 word \<Rightarrow> vb2_signature" where
  "example_sig n d = \<lparr>sig_size = n, data_size = d, sig_data = (\<lambda>i. 0)\<rparr>"

definition example_wb :: "64 word vb2_workbuf" where
  "example_wb = \<lparr>wb_buf = 4096, wb_size = 64\<rparr>"

definition example_crypto_state :: "nat crypto_state" where
  "example_crypto_state = \<lparr>hw = 0, crypto_calls = []\<rparr>"

definition zero_bytes :: byte_ptr where
  "zero_bytes = (\<lambda>i. 0)"

text \<open>
  Values for the constants of the missing headers: one bit each for the flags, small
  distinct numbers for the recovery reasons.
\<close>

definition example_constants :: vb2_constants where
  "example_constants =
     \<lparr>VB2_CONTEXT_RECOVERY_MODE = 32,
      VB2_CONTEXT_EC_SYNC_SUPPORTED = 8192,
      VB2_CONTEXT_EC_SYNC_SLOW = 16384,
      VB2_CONTEXT_EC_EFS = 32768,
      VB2_GBB_FLAG_DISABLE_EC_SOFTWARE_SYNC = 512,
      VB2_SD_STATUS_EC_SYNC_COMPLETE = 32,
      VB2_RECOVERY_EC_SOFTWARE_SYNC = 34,
      VB2_RECOVERY_EC_UNKNOWN_IMAGE = 35,
      VB2_RECOVERY_EC_HASH_FAILED = 36,
      VB2_RECOVERY_EC_EXPECTED_HASH = 41,
      VB2_RECOVERY_EC_HASH_SIZE = 42,
      VB2_RECOVERY_EC_UPDATE = 38,
      VB2_RECOVERY_EC_JUMP_RW = 39,
      VB2_RECOVERY_EC_PROTECT = 40\<rparr>"

text \<open>
  An EC whose state counts the calls of \<open>vb2ex_ec_update_image\<close> so far. The first
  \<open>fails\<close> of them fail, the next one writes the expected image; the image hash has two
  bytes, \<open>0\<close> before that write and \<open>1\<close> (the expected hash) after it. \<open>in_rw\<close> is what
  \<open>vb2ex_ec_running_rw\<close> reports. Every other callback succeeds.
\<close>

definition example_ec_ops :: "nat \<Rightarrow> 32 word \<Rightarrow> nat ec_ops" where
  "example_ec_ops fails in_rw =
     \<lparr>vb2ex_ec_running_rw = (\<lambda>e. ((VB2_SUCCESS, in_rw), e)),
      vb2ex_ec_hash_image =
        (\<lambda>select e. ((VB2_SUCCESS, (\<lambda>i. if fails < e then 1 else 0), 2), e)),
      vb2ex_ec_get_expected_image_hash = (\<lambda>select e. ((VB2_SUCCESS, (\<lambda>i. 1), 2), e)),
      vb2ex_ec_update_image =
        (\<lambda>select e. (if e < fails then VB2_ERROR_OTHER 1 else VB2_SUCCESS, Suc e)),
      vb2ex_ec_jump_to_rw = (\<lambda>e. (VB2_SUCCESS, e)),
      vb2ex_ec_protect = (\<lambda>select e. (VB2_SUCCESS, e)),
      vb2ex_ec_disable_jump = (\<lambda>e. (VB2_SUCCESS, e)),
      vb2ex_ec_vboot_done = (\<lambda>ctx e. (VB2_SUCCESS, e)),
      VbDisplayScreen = (\<lambda>e. (VB2_SUCCESS, e))\<rparr>"

definition example_ctx :: "64 word \<Rightarrow> 32 word \<Rightarrow> 32 word \<Rightarrow> nat vb2_context" where
  "example_ctx cflags sflags reason =
     \<lparr>ctx_flags = cflags, sd_flags = sflags, sd_status = 0, sd_recovery_reason = reason,
      gbb_flags = 0, nvdata = (\<lambda>param. 0), nv_dirty = False, ec = 0, ec_calls = []\<rparr>"

section \<open>Properties of 2common.c\<close>

subsection \<open>Constant-time comparison\<close>

lemma bytes_at_Suc: "bytes_at p (Suc n) = p 0 # bytes_at (ptr_inc p) n"
proof -
  have "[0..<Suc n] = 0 # map Suc [0..<n]"
    by (simp add: upt_conv_Cons map_Suc_upt del: upt_Suc)
  then show ?thesis
    by (simp add: bytes_at_def ptr_inc_def comp_def del: upt_Suc)
qed

lemma byte_xor_zero:
  "(ucast (a :: 8 word) XOR ucast (b :: 8 word) :: 32 word) = 0 \<longleftrightarrow> a = b"
proof
  assume "(ucast a XOR ucast b :: 32 word) = 0"
  then have "(ucast a :: 32 word) = ucast b"
    by (metis xor.left_neutral xor.assoc xor_self_eq)
  then have "uint a mod 2 ^ 32 = uint b mod 2 ^ 32"
    by (simp add: word_eq_iff_unsigned [where ?'a = int] unsigned_ucast_eq take_bit_eq_mod)
  moreover have "uint a < 2 ^ 8" "uint b < 2 ^ 8" "0 \<le> uint a" "0 \<le> uint b"
    using uint_lt2p [of a] uint_lt2p [of b] by simp_all
  ultimately have "uint a = uint b"
    by simp
  then show "a = b"
    by (rule word_uint_eqI)
next
  assume "a = b"
  then show "(ucast a XOR ucast b :: 32 word) = 0" by simp
qed

lemma safe_memcmp_loop_zero:
  "safe_memcmp_loop us1 us2 n r = 0 \<longleftrightarrow> r = 0 \<and> bytes_at us1 n = bytes_at us2 n"
proof (induction n arbitrary: us1 us2 r)
  case 0
  show ?case by (simp add: bytes_at_def)
next
  case (Suc n)
  have "safe_memcmp_loop us1 us2 (Suc n) r = 0 \<longleftrightarrow>
        (r OR (ucast (us1 0) XOR ucast (us2 0))) = 0
        \<and> bytes_at (ptr_inc us1) n = bytes_at (ptr_inc us2) n"
    by (simp add: Suc.IH)
  also have "\<dots> \<longleftrightarrow> r = 0 \<and> us1 0 = us2 0
        \<and> bytes_at (ptr_inc us1) n = bytes_at (ptr_inc us2) n"
    by (simp add: or_eq_0_iff byte_xor_zero)
  finally show ?case
    by (auto simp: bytes_at_Suc)
qed

text \<open>
  C2. \<open>vb2_safe_memcmp s1 s2 n\<close> returns \<open>0\<close> exactly when the first \<open>n\<close> bytes at
  \<open>s1\<close> equal the first \<open>n\<close> bytes at \<open>s2\<close>, and it returns \<open>0\<close> for \<open>n = 0\<close> whatever
  the buffers hold.
\<close>

theorem vb2_safe_memcmp_zero_iff_equal:
  "(vb2_safe_memcmp s1 s2 n = 0 \<longleftrightarrow> bytes_at s1 n = bytes_at s2 n)
   \<and> vb2_safe_memcmp s1 s2 0 = 0"
  by (simp add: vb2_safe_memcmp_def safe_memcmp_loop_zero bytes_at_def)

subsection \<open>Bounds of a member inside its parent\<close>

















text \<open>
  The calls of the repository's unit test (tests/vb2_common_tests.c), on a 64-bit
  machine, with the result the test expects.
\<close>

lemma vb2_verify_member_inside_tests:
  "vb2_verify_member_inside (4096 :: 64 word) 20 4096 6 11 3 = VB2_SUCCESS"
  "vb2_verify_member_inside (4096 :: 64 word) 20 (4096 + 4) 4 8 4 = VB2_SUCCESS"
  "vb2_verify_member_inside (4096 :: 64 word) 20 (4096 - 4) 4 8 4 = VB2_ERROR_INSIDE_MEMBER_OUTSIDE"
  "vb2_verify_member_inside (4096 :: 64 word) 20 (4096 + 20) 4 8 4 = VB2_ERROR_INSIDE_MEMBER_OUTSIDE"
  "vb2_verify_member_inside (4096 :: 64 word) 20 4096 21 0 0 = VB2_ERROR_INSIDE_MEMBER_OUTSIDE"
  "vb2_verify_member_inside (4096 :: 64 word) 20 4096 4 21 0 = VB2_ERROR_INSIDE_DATA_OUTSIDE"
  "vb2_verify_member_inside (4096 :: 64 word) 20 4096 4 (- 1) 0 = VB2_ERROR_INSIDE_DATA_OUTSIDE"
  "vb2_verify_member_inside (4096 :: 64 word) 20 4096 4 4 17 = VB2_ERROR_INSIDE_DATA_OUTSIDE"
  "vb2_verify_member_inside (4096 :: 64 word) 20 4096 8 4 8 = VB2_ERROR_INSIDE_DATA_OVERLAP"
  "vb2_verify_member_inside (4096 :: 64 word) (- 8) 4096 12 0 0 = VB2_ERROR_INSIDE_PARENT_WRAPS"
  "vb2_verify_member_inside (4096 :: 64 word) 20 4096 (- 8) 0 0 = VB2_ERROR_INSIDE_MEMBER_WRAPS"
  "vb2_verify_member_inside (4096 :: 64 word) 20 4096 4 4 (- 12) = VB2_ERROR_INSIDE_DATA_WRAPS"
  by (simp_all add: vb2_verify_member_inside_def vb2_offset_of_def Let_def)




subsection \<open>Work buffer\<close>

lemma alloc_success:
  assumes "vb2_workbuf_alloc rnd wb0 old_n = (p, wb1)" and "p \<noteq> NULL"
  shows "\<not> rnd old_n > wb_size wb0 \<and> p = wb_buf wb0
     \<and> wb1 = wb0\<lparr>wb_buf := wb_buf wb0 + ucast (rnd old_n), wb_size := wb_size wb0 - rnd old_n\<rparr>"
  using assms by (auto simp: vb2_workbuf_alloc_def Let_def split: if_splits)

lemma free_after_alloc:
  assumes "vb2_workbuf_alloc rnd wb0 old_n = (p, wb1)" and "p \<noteq> NULL"
  shows "vb2_workbuf_free rnd wb1 old_n = wb0"
  using alloc_success [OF assms] by (simp add: vb2_workbuf_free_def Let_def)

text \<open>
  The work-buffer calls of the repository's unit test (tests/vb2_common_tests.c), with
  the alignment 16 the test assumes: allocation rounds up, an allocation that is too big
  fails, and free reverses allocation.
\<close>

lemma vb2_workbuf_tests:
  "vb2_workbuf_alloc (wb_round_up 16) \<lparr>wb_buf = 4096 :: 64 word, wb_size = 64\<rparr> 22
     = (4096, \<lparr>wb_buf = 4096 + 32, wb_size = 32\<rparr>)"
  "fst (vb2_workbuf_alloc (wb_round_up 16) \<lparr>wb_buf = 4096 :: 64 word, wb_size = 32\<rparr> 33)
     = NULL"
  "vb2_workbuf_free (wb_round_up 16)
     (snd (vb2_workbuf_alloc (wb_round_up 16) \<lparr>wb_buf = 4096 :: 64 word, wb_size = 32\<rparr> 22)) 22
     = \<lparr>wb_buf = 4096, wb_size = 32\<rparr>"
  by (simp_all add: vb2_workbuf_alloc_def vb2_workbuf_free_def wb_round_up_def Let_def)

text \<open>
  C8. If the latest allocation, of \<open>old_n\<close> bytes, returned the pointer \<open>p\<close> (not
  \<open>NULL\<close>), then \<open>vb2_workbuf_realloc wb old_n new_n\<close> is the allocation of \<open>new_n\<close>
  bytes in the work buffer as it was before that allocation (free, then allocate at
  the same position): it returns \<open>p\<close> again or fails with \<open>NULL\<close>, and it fails exactly
  when \<open>new_n\<close> rounded up exceeds the space from \<open>p\<close> on, which is the space left plus
  \<open>old_n\<close> rounded up. This holds for every rounding function.
\<close>

theorem vb2_workbuf_realloc_same_pointer:
  fixes wb0 :: "'a::len word vb2_workbuf"
  assumes "vb2_workbuf_alloc round_up wb0 old_n = (p, wb1)" and "p \<noteq> NULL"
  shows "vb2_workbuf_realloc round_up wb1 old_n new_n = vb2_workbuf_alloc round_up wb0 new_n
    \<and> (fst (vb2_workbuf_realloc round_up wb1 old_n new_n) = p
        \<or> fst (vb2_workbuf_realloc round_up wb1 old_n new_n) = NULL)
    \<and> (fst (vb2_workbuf_realloc round_up wb1 old_n new_n) = NULL
         \<longleftrightarrow> unat (wb_size wb1) + unat (round_up old_n) < unat (round_up new_n))"
proof -
  have s: "\<not> round_up old_n > wb_size wb0" "p = wb_buf wb0"
    "wb_size wb1 = wb_size wb0 - round_up old_n"
    using alloc_success [OF assms] by simp_all
  have le: "round_up old_n \<le> wb_size wb0"
    using s(1) by simp
  have sz: "unat (wb_size wb1) + unat (round_up old_n) = unat (wb_size wb0)"
    using le unat_sub [OF le] by (simp add: s(3) word_le_nat_alt)
  have r: "vb2_workbuf_realloc round_up wb1 old_n new_n = vb2_workbuf_alloc round_up wb0 new_n"
    by (simp add: vb2_workbuf_realloc_def free_after_alloc [OF assms])
  show ?thesis
    unfolding r sz using assms(2) s(2)
    by (auto simp: vb2_workbuf_alloc_def Let_def word_less_nat_alt)
qed

theorem vb2_workbuf_realloc_same_pointer_witness:
  "vb2_workbuf_alloc (wb_round_up 16) example_wb 6
     = (4096, \<lparr>wb_buf = 4112, wb_size = 48\<rparr>)
   \<and> (4096 :: 64 word) \<noteq> NULL
   \<and> vb2_workbuf_realloc (wb_round_up 16) \<lparr>wb_buf = 4112, wb_size = 48\<rparr> 6 21
     = (4096 :: 64 word, \<lparr>wb_buf = 4128, wb_size = 32\<rparr>)"
proof -
  have a: "vb2_workbuf_alloc (wb_round_up 16) example_wb 6
     = (4096, \<lparr>wb_buf = 4112, wb_size = 48\<rparr>)"
    by (simp add: vb2_workbuf_alloc_def wb_round_up_def example_wb_def Let_def)
  have n: "(4096 :: 64 word) \<noteq> NULL"
    by (simp add: NULL_def)
  have "vb2_workbuf_alloc (wb_round_up 16) example_wb 21
     = (4096, \<lparr>wb_buf = 4128, wb_size = 32\<rparr>)"
    by (simp add: vb2_workbuf_alloc_def wb_round_up_def example_wb_def Let_def)
  with vb2_workbuf_realloc_same_pointer [OF a n, of 21] a n show ?thesis
    by simp
qed

subsection \<open>Signature verification\<close>

text \<open>
  C3. \<open>vb2_verify_digest\<close>: when the signature's size differs from the size expected for
  the key's algorithm, the result is \<open>VB2_ERROR_VDATA_SIG_SIZE\<close> and the state, with its
  log of calls, is untouched: neither the hardware nor the software check ran. When the
  sizes agree and the key permits hardware crypto, a hardware answer other than
  "unsupported" is the result as it is, success or error, and the hardware call is the
  only one made; the answer "unsupported" is followed by the software check, whose answer
  is the result.
\<close>

theorem vb2_verify_digest_dispatch:
  "(sig_size sig \<noteq> vb2_rsa_sig_size ops (sig_alg key) \<longrightarrow>
      vb2_verify_digest ops key sig digest wb s = (VB2_ERROR_VDATA_SIG_SIZE, s))
   \<and> (sig_size sig = vb2_rsa_sig_size ops (sig_alg key) \<and> allow_hwcrypto key
        \<and> fst (vb2ex_hwcrypto_rsa_verify_digest ops key (sig_data sig) digest (hw s))
            \<noteq> VB2_ERROR_EX_HWCRYPTO_UNSUPPORTED \<longrightarrow>
      fst (vb2_verify_digest ops key sig digest wb s)
        = fst (vb2ex_hwcrypto_rsa_verify_digest ops key (sig_data sig) digest (hw s))
      \<and> crypto_calls (snd (vb2_verify_digest ops key sig digest wb s))
        = crypto_calls s @ [CALL_HWCRYPTO_RSA_VERIFY_DIGEST])
   \<and> (sig_size sig = vb2_rsa_sig_size ops (sig_alg key) \<and> allow_hwcrypto key
        \<and> fst (vb2ex_hwcrypto_rsa_verify_digest ops key (sig_data sig) digest (hw s))
            = VB2_ERROR_EX_HWCRYPTO_UNSUPPORTED \<longrightarrow>
      fst (vb2_verify_digest ops key sig digest wb s)
        = vb2_rsa_verify_digest ops key (sig_data sig) digest wb
      \<and> crypto_calls (snd (vb2_verify_digest ops key sig digest wb s))
        = crypto_calls s @ [CALL_HWCRYPTO_RSA_VERIFY_DIGEST, CALL_RSA_VERIFY_DIGEST])"
  by (simp add: vb2_verify_digest_def hw_call_def sw_call_def vb2_signature_data_mutable_def
      Let_def split_beta)

lemmas ex_crypto_simps = example_crypto_ops_def example_key_def example_sig_def example_wb_def
  example_crypto_state_def zero_bytes_def

theorem vb2_verify_digest_dispatch_witness:
  "sig_size (example_sig 255 16)
     \<noteq> vb2_rsa_sig_size (example_crypto_ops VB2_SUCCESS) (sig_alg (example_key True))
   \<and> vb2_verify_digest (example_crypto_ops VB2_SUCCESS) (example_key True) (example_sig 255 16)
       zero_bytes example_wb example_crypto_state
     = (VB2_ERROR_VDATA_SIG_SIZE, example_crypto_state)
   \<and> sig_size (example_sig 256 16)
     = vb2_rsa_sig_size (example_crypto_ops (VB2_ERROR_OTHER 7)) (sig_alg (example_key True))
   \<and> allow_hwcrypto (example_key True)
   \<and> fst (vb2ex_hwcrypto_rsa_verify_digest (example_crypto_ops (VB2_ERROR_OTHER 7))
            (example_key True) (sig_data (example_sig 256 16)) zero_bytes
            (hw example_crypto_state)) = VB2_ERROR_OTHER 7
   \<and> fst (vb2_verify_digest (example_crypto_ops (VB2_ERROR_OTHER 7)) (example_key True)
            (example_sig 256 16) zero_bytes example_wb example_crypto_state)
     = VB2_ERROR_OTHER 7
   \<and> crypto_calls (snd (vb2_verify_digest (example_crypto_ops (VB2_ERROR_OTHER 7))
            (example_key True) (example_sig 256 16) zero_bytes example_wb example_crypto_state))
     = [CALL_HWCRYPTO_RSA_VERIFY_DIGEST]
   \<and> fst (vb2ex_hwcrypto_rsa_verify_digest (example_crypto_ops VB2_ERROR_EX_HWCRYPTO_UNSUPPORTED)
            (example_key True) (sig_data (example_sig 256 16)) zero_bytes
            (hw example_crypto_state)) = VB2_ERROR_EX_HWCRYPTO_UNSUPPORTED
   \<and> fst (vb2_verify_digest (example_crypto_ops VB2_ERROR_EX_HWCRYPTO_UNSUPPORTED)
            (example_key True) (example_sig 256 16) zero_bytes example_wb example_crypto_state)
     = VB2_ERROR_RSA_DIGEST
   \<and> crypto_calls (snd (vb2_verify_digest (example_crypto_ops VB2_ERROR_EX_HWCRYPTO_UNSUPPORTED)
            (example_key True) (example_sig 256 16) zero_bytes example_wb example_crypto_state))
     = [CALL_HWCRYPTO_RSA_VERIFY_DIGEST, CALL_RSA_VERIFY_DIGEST]"
  using
    vb2_verify_digest_dispatch [of "example_sig 255 16" "example_crypto_ops VB2_SUCCESS"
      "example_key True" zero_bytes example_wb example_crypto_state]
    vb2_verify_digest_dispatch [of "example_sig 256 16" "example_crypto_ops (VB2_ERROR_OTHER 7)"
      "example_key True" zero_bytes example_wb example_crypto_state]
    vb2_verify_digest_dispatch [of "example_sig 256 16"
      "example_crypto_ops VB2_ERROR_EX_HWCRYPTO_UNSUPPORTED"
      "example_key True" zero_bytes example_wb example_crypto_state]
  by (simp add: ex_crypto_simps)

text \<open>
  C5, as stated: every failing result of \<open>vb2_verify_data\<close> is wrong-signature-size,
  digest-size-unsupported, workbuf-exhausted, digest-mismatch or padding-malformed. It
  is not so: a signature that claims more signed bytes than the data buffer holds is
  refused first, with \<open>VB2_ERROR_VDATA_NOT_ENOUGH_DATA\<close>.
\<close>

theorem vb2_verify_data_failure_kinds_counterexample:
  "fst (vb2_verify_data (example_crypto_ops VB2_SUCCESS) zero_bytes 0 (example_sig 256 1)
          (example_key True) example_wb example_crypto_state) = VB2_ERROR_VDATA_NOT_ENOUGH_DATA
   \<and> VB2_ERROR_VDATA_NOT_ENOUGH_DATA \<notin> {VB2_SUCCESS, VB2_ERROR_VDATA_SIG_SIZE,
        VB2_ERROR_VDATA_DIGEST_SIZE, VB2_ERROR_VDATA_WORKBUF_DIGEST, VB2_ERROR_RSA_DIGEST,
        VB2_ERROR_RSA_PADDING}"
  by (simp add: vb2_verify_data_def ex_crypto_simps)

lemma vb2_verify_digest_kinds:
  assumes "\<And>k sg d h. fst (vb2ex_hwcrypto_rsa_verify_digest ops k sg d h) \<noteq> VB2_ERROR_EX_HWCRYPTO_UNSUPPORTED
             \<Longrightarrow> fst (vb2ex_hwcrypto_rsa_verify_digest ops k sg d h) \<in> S"
    and "\<And>k sg d w. vb2_rsa_verify_digest ops k sg d w \<in> S"
    and "VB2_ERROR_VDATA_SIG_SIZE \<in> S"
  shows "fst (vb2_verify_digest ops key sig digest wb s) \<in> S"
  by (simp add: vb2_verify_digest_def hw_call_def sw_call_def vb2_signature_data_mutable_def
        Let_def split_beta assms)

text \<open>
  C5, amended. Let \<open>E\<close> hold every failure the digest and RSA routines can report
  (\<open>crypto_failures_within\<close>). Then every result of
  \<open>vb2_verify_data\<close> is success, one of its own four failures (not-enough-data,
  digest-size-unsupported, workbuf-exhausted, wrong-signature-size) or a failure of
  \<open>E\<close>, handed on as it came. With the software RSA check's digest-mismatch and
  padding-malformed for \<open>E\<close>, these are the kinds of the claim and not-enough-data.
\<close>

theorem vb2_verify_data_failure_kinds:
  assumes within: "crypto_failures_within ops E"
  shows "fst (vb2_verify_data ops data size' sig key wb s)
           \<in> {VB2_SUCCESS, VB2_ERROR_VDATA_NOT_ENOUGH_DATA, VB2_ERROR_VDATA_DIGEST_SIZE,
              VB2_ERROR_VDATA_WORKBUF_DIGEST, VB2_ERROR_VDATA_SIG_SIZE} \<union> E"
proof -
  define S where "S = {VB2_SUCCESS, VB2_ERROR_VDATA_NOT_ENOUGH_DATA, VB2_ERROR_VDATA_DIGEST_SIZE,
              VB2_ERROR_VDATA_WORKBUF_DIGEST, VB2_ERROR_VDATA_SIG_SIZE} \<union> E"
  have init: "\<forall>alg n h. fst (vb2ex_hwcrypto_digest_init ops alg n h)
             \<in> insert VB2_SUCCESS (insert VB2_ERROR_EX_HWCRYPTO_UNSUPPORTED E)"
    and extend: "\<forall>d n h. fst (vb2ex_hwcrypto_digest_extend ops d n h) \<in> insert VB2_SUCCESS E"
    and finalize: "\<forall>n h. fst (fst (vb2ex_hwcrypto_digest_finalize ops n h))
             \<in> insert VB2_SUCCESS E"
    and buffer: "\<forall>d n alg m. fst (vb2_digest_buffer ops d n alg m) \<in> insert VB2_SUCCESS E"
    and hw_rsa: "\<forall>k sg d h. fst (vb2ex_hwcrypto_rsa_verify_digest ops k sg d h)
             \<in> insert VB2_SUCCESS (insert VB2_ERROR_EX_HWCRYPTO_UNSUPPORTED E)"
    and sw_rsa: "\<forall>k sg d w. vb2_rsa_verify_digest ops k sg d w \<in> insert VB2_SUCCESS E"
    using within unfolding crypto_failures_within_def by blast+
  have k: "VB2_ERROR_VDATA_NOT_ENOUGH_DATA \<in> S" "VB2_ERROR_VDATA_DIGEST_SIZE \<in> S"
    "VB2_ERROR_VDATA_WORKBUF_DIGEST \<in> S" "VB2_ERROR_VDATA_SIG_SIZE \<in> S"
    by (simp_all add: S_def)
  have hr: "fst (vb2ex_hwcrypto_rsa_verify_digest ops k sg d h) \<noteq> VB2_ERROR_EX_HWCRYPTO_UNSUPPORTED
      \<Longrightarrow> fst (vb2ex_hwcrypto_rsa_verify_digest ops k sg d h) \<in> S" for k sg d h
    using hw_rsa [rule_format, of k sg d h] by (auto simp: S_def)
  have sr: "vb2_rsa_verify_digest ops k sg d w \<in> S" for k sg d w
    using sw_rsa [rule_format, of k sg d w] by (auto simp: S_def)
  have vd: "fst (vb2_verify_digest ops key sig digest wb' s') \<in> S" for digest wb' s'
    by (rule vb2_verify_digest_kinds [OF hr sr k(4)])
  have i: "fst (vb2ex_hwcrypto_digest_init ops alg n h) \<noteq> VB2_SUCCESS \<Longrightarrow>
      fst (vb2ex_hwcrypto_digest_init ops alg n h) \<noteq> VB2_ERROR_EX_HWCRYPTO_UNSUPPORTED \<Longrightarrow>
      fst (vb2ex_hwcrypto_digest_init ops alg n h) \<in> S" for alg n h
    using init [rule_format, of alg n h] by (auto simp: S_def)
  have e: "fst (vb2ex_hwcrypto_digest_extend ops d n h) \<in> S" for d n h
    using extend [rule_format, of d n h] by (auto simp: S_def)
  have f: "fst (fst (vb2ex_hwcrypto_digest_finalize ops n h)) \<in> S" for n h
    using finalize [rule_format, of n h] by (auto simp: S_def)
  have b: "fst (vb2_digest_buffer ops d n alg m) \<in> S" for d n alg m
    using buffer [rule_format, of d n alg m] by (auto simp: S_def)
  have "fst (vb2_verify_data ops data size' sig key wb s) \<in> S"
    unfolding vb2_verify_data_def
    by (simp add: split_beta Let_def hw_call_def sw_call_def k vd i e f b)
  then show ?thesis by (simp only: S_def)
qed

theorem vb2_verify_data_failure_kinds_witness:
  "crypto_failures_within (example_crypto_ops VB2_ERROR_EX_HWCRYPTO_UNSUPPORTED)
     {VB2_ERROR_RSA_DIGEST, VB2_ERROR_RSA_PADDING}
   \<and> fst (vb2_verify_data (example_crypto_ops VB2_ERROR_EX_HWCRYPTO_UNSUPPORTED) zero_bytes 16
            (example_sig 256 16) (example_key True) example_wb example_crypto_state)
       \<in> {VB2_SUCCESS, VB2_ERROR_VDATA_NOT_ENOUGH_DATA, VB2_ERROR_VDATA_DIGEST_SIZE,
              VB2_ERROR_VDATA_WORKBUF_DIGEST, VB2_ERROR_VDATA_SIG_SIZE}
          \<union> {VB2_ERROR_RSA_DIGEST, VB2_ERROR_RSA_PADDING}
   \<and> fst (vb2_verify_data (example_crypto_ops VB2_ERROR_EX_HWCRYPTO_UNSUPPORTED) zero_bytes 16
            (example_sig 256 16) (example_key True) example_wb example_crypto_state)
       = VB2_ERROR_RSA_DIGEST"
proof -
  have within: "crypto_failures_within (example_crypto_ops VB2_ERROR_EX_HWCRYPTO_UNSUPPORTED)
     {VB2_ERROR_RSA_DIGEST, VB2_ERROR_RSA_PADDING}"
    by (simp add: crypto_failures_within_def example_crypto_ops_def)
  have r: "fst (vb2_verify_data (example_crypto_ops VB2_ERROR_EX_HWCRYPTO_UNSUPPORTED) zero_bytes 16
            (example_sig 256 16) (example_key True) example_wb example_crypto_state)
       = VB2_ERROR_RSA_DIGEST"
    by (simp add: vb2_verify_data_def vb2_verify_digest_def ex_crypto_simps hw_call_def sw_call_def
        vb2_workbuf_alloc_def wb_round_up_def NULL_def vb2_signature_data_mutable_def Let_def)
  from vb2_verify_data_failure_kinds [OF within,
      of zero_bytes 16 "example_sig 256 16" "example_key True" example_wb example_crypto_state]
    within r
  show ?thesis by blast
qed

section \<open>Properties of 2ec_sync.c\<close>

subsection \<open>What the helpers leave alone\<close>

lemma nv_set_fields [simp]:
  "ec_calls (vb2_nv_set ctx p v) = ec_calls ctx"
  "ec (vb2_nv_set ctx p v) = ec ctx"
  "sd_flags (vb2_nv_set ctx p v) = sd_flags ctx"
  "ctx_flags (vb2_nv_set ctx p v) = ctx_flags ctx"
  "gbb_flags (vb2_nv_set ctx p v) = gbb_flags ctx"
  "sd_recovery_reason (vb2_nv_set ctx p v) = sd_recovery_reason ctx"
  "nvdata (vb2_nv_set ctx p v) = (nvdata ctx)(p := v)"
  by (auto simp: vb2_nv_set_def)

lemma request_recovery_fields [simp]:
  "ec_calls (request_recovery ctx r) = ec_calls ctx"
  "ec (request_recovery ctx r) = ec ctx"
  "sd_flags (request_recovery ctx r) = sd_flags ctx"
  "ctx_flags (request_recovery ctx r) = ctx_flags ctx"
  "nvdata (request_recovery ctx r) = (nvdata ctx)(VB2_NV_RECOVERY_REQUEST := r)"
  by (simp_all add: request_recovery_def)

lemma ec_op_fields [simp]:
  "ec_calls (snd (ec_op c f ctx)) = ec_calls ctx @ [c]"
  "sd_flags (snd (ec_op c f ctx)) = sd_flags ctx"
  "ctx_flags (snd (ec_op c f ctx)) = ctx_flags ctx"
  "nvdata (snd (ec_op c f ctx)) = nvdata ctx"
  by (simp_all add: ec_op_def split_beta)

text \<open>Evaluation of the concrete instances.\<close>

lemma size_t_of_int_2: "size_t_of_int 2 = Suc (Suc 0)"
  by (simp add: size_t_of_int_def)

lemmas ex_ec_simps = example_ec_ops_def example_ctx_def example_constants_def
  vb2api_ec_sync_def ec_sync_phase1_def ec_sync_phase2_def ec_sync_allowed_def
  ec_will_update_slowly_def check_reboot_for_display_def display_wait_screen_def
  sync_ec_def sync_ec_update_rw_def sync_ec_jump_rw_def sync_ec_update_ro_def
  sync_ec_protect_def protect_ec_def update_ec_def check_ec_hash_def check_ec_active_def
  ec_op_def request_recovery_def vb2_nv_set_def vb2_nv_get_def SYNC_FLAG_def
  VB2_SD_FLAG_ECSYNC_EC_RO_def VB2_SD_FLAG_ECSYNC_EC_RW_def VB2_SD_FLAG_ECSYNC_EC_IN_RW_def
  VB2_SD_FLAG_DISPLAY_AVAILABLE_def vb2_safe_memcmp_def size_t_of_int_2 ptr_inc_def
  RO_RETRIES_def Let_def


subsection \<open>Recovery mode\<close>

text \<open>
  C9, as stated: the call in recovery mode leaves the sync-complete bit clear, so that a
  later invocation in the same boot would still run the full sync. The later invocation
  does not: it gets the context the first one returned, sees the recovery-mode flag
  again and returns at once, with no platform call logged. (On the same platform, the
  context without the recovery-mode flag is synced with eleven platform calls, the last
  of them \<open>vb2ex_ec_vboot_done\<close>.)
\<close>

theorem vb2api_ec_sync_recovery_noop_counterexample:
  "ctx_flags (example_ctx 8224 0 0) AND VB2_CONTEXT_RECOVERY_MODE example_constants \<noteq> 0
   \<and> vb2api_ec_sync (example_ec_ops 0 0) example_constants (example_ctx 8224 0 0)
       = (VB2_SUCCESS, example_ctx 8224 0 0)
   \<and> vb2api_ec_sync (example_ec_ops 0 0) example_constants
        (snd (vb2api_ec_sync (example_ec_ops 0 0) example_constants (example_ctx 8224 0 0)))
       = (VB2_SUCCESS, example_ctx 8224 0 0)
   \<and> ec_calls (example_ctx 8224 0 0) = []
   \<and> sd_flags (example_ctx 8224 0 0) AND VB2_SD_STATUS_EC_SYNC_COMPLETE example_constants = 0
   \<and> length (ec_calls (snd (vb2api_ec_sync (example_ec_ops 0 0) example_constants
        (example_ctx 8192 0 0)))) = 11
   \<and> last (ec_calls (snd (vb2api_ec_sync (example_ec_ops 0 0) example_constants
        (example_ctx 8192 0 0)))) = EC_VBOOT_DONE"
proof -
  have a: "ctx_flags (example_ctx 8224 0 0) AND VB2_CONTEXT_RECOVERY_MODE example_constants \<noteq> 0"
    and b: "ec_calls (example_ctx 8224 0 0) = []"
    and c: "sd_flags (example_ctx 8224 0 0) AND VB2_SD_STATUS_EC_SYNC_COMPLETE example_constants = 0"
    by (simp_all add: example_ctx_def example_constants_def)
  have d: "vb2api_ec_sync (example_ec_ops 0 0) example_constants (example_ctx 8224 0 0)
       = (VB2_SUCCESS, example_ctx 8224 0 0)"
    using a by (simp add: vb2api_ec_sync_def)
  have e: "ec_calls (snd (vb2api_ec_sync (example_ec_ops 0 0) example_constants
        (example_ctx 8192 0 0)))
       = [EC_RUNNING_RW, EC_HASH_IMAGE VB_SELECT_FIRMWARE_EC_ACTIVE,
          EC_GET_EXPECTED_IMAGE_HASH VB_SELECT_FIRMWARE_EC_ACTIVE,
          EC_UPDATE_IMAGE VB_SELECT_FIRMWARE_EC_ACTIVE,
          EC_HASH_IMAGE VB_SELECT_FIRMWARE_EC_ACTIVE,
          EC_GET_EXPECTED_IMAGE_HASH VB_SELECT_FIRMWARE_EC_ACTIVE,
          EC_JUMP_TO_RW, EC_PROTECT VB_SELECT_FIRMWARE_READONLY,
          EC_PROTECT VB_SELECT_FIRMWARE_EC_ACTIVE, EC_DISABLE_JUMP, EC_VBOOT_DONE]"
    by (simp add: ex_ec_simps)
  show ?thesis
    unfolding e d using a b c d by simp
qed

text \<open>
  C9, amended. With the recovery-mode flag set in the context, \<open>vb2api_ec_sync\<close> returns
  success and the state it was given: no platform call is logged, the NV record and the
  shared data are as before, and so the sync-complete bit is as it was. A later
  invocation on the context this one returned, where the recovery-mode flag is still
  set, returns in the same way: success, the same state, no sync. Likewise
  \<open>ec_sync_phase2\<close> returns success and the state it was given whenever the shared data
  holds a non-zero recovery reason.
\<close>

theorem vb2api_ec_sync_recovery_noop:
  "(ctx_flags ctx AND VB2_CONTEXT_RECOVERY_MODE K \<noteq> 0 \<longrightarrow>
      vb2api_ec_sync ops K ctx = (VB2_SUCCESS, ctx)
      \<and> vb2api_ec_sync ops K (snd (vb2api_ec_sync ops K ctx)) = (VB2_SUCCESS, ctx))
   \<and> (sd_recovery_reason ctx \<noteq> 0 \<longrightarrow> ec_sync_phase2 ops K ctx = (VB2_SUCCESS, ctx))"
  by (simp add: vb2api_ec_sync_def ec_sync_phase2_def ec_sync_allowed_def)

theorem vb2api_ec_sync_recovery_noop_witness:
  "ctx_flags (example_ctx 32 0 0) AND VB2_CONTEXT_RECOVERY_MODE example_constants \<noteq> 0
   \<and> vb2api_ec_sync (example_ec_ops 0 0) example_constants (example_ctx 32 0 0)
       = (VB2_SUCCESS, example_ctx 32 0 0)
   \<and> vb2api_ec_sync (example_ec_ops 0 0) example_constants
        (snd (vb2api_ec_sync (example_ec_ops 0 0) example_constants (example_ctx 32 0 0)))
       = (VB2_SUCCESS, example_ctx 32 0 0)
   \<and> sd_flags (example_ctx 32 0 0) AND VB2_SD_STATUS_EC_SYNC_COMPLETE example_constants = 0
   \<and> sd_recovery_reason (example_ctx 8192 0 5) \<noteq> 0
   \<and> ec_sync_phase2 (example_ec_ops 0 0) example_constants (example_ctx 8192 0 5)
       = (VB2_SUCCESS, example_ctx 8192 0 5)"
  using vb2api_ec_sync_recovery_noop [of "example_ctx 32 0 0" example_constants "example_ec_ops 0 0"]
    vb2api_ec_sync_recovery_noop [of "example_ctx 8192 0 5" example_constants "example_ec_ops 0 0"]
  by (simp add: example_ctx_def example_constants_def)

subsection \<open>Reboot for the display\<close>

text \<open>
  C10. Let \<open>vb2api_ec_sync\<close> get past its two early exits, and let phase 1 end in the
  state \<open>ctx1\<close> with any result \<open>phase1_rv\<close>. If a slow update is pending in \<open>ctx1\<close>
  (\<open>ec_will_update_slowly\<close>) and the display-available flag is clear, then
  \<open>vb2api_ec_sync\<close> sets the NV display request to 1 and returns
  \<open>VBERROR_REBOOT_REQUIRED\<close>, also when \<open>phase1_rv\<close> is a failure.
\<close>

theorem vb2api_ec_sync_display_reboot:
  assumes "sd_flags ctx AND VB2_SD_STATUS_EC_SYNC_COMPLETE K = 0"
    and "ctx_flags ctx AND VB2_CONTEXT_RECOVERY_MODE K = 0"
    and "ec_sync_phase1 ops K ctx = (phase1_rv, ctx1)"
    and "ec_will_update_slowly K ctx1"
    and "sd_flags ctx1 AND VB2_SD_FLAG_DISPLAY_AVAILABLE = 0"
  shows "vb2api_ec_sync ops K ctx
           = (VBERROR_REBOOT_REQUIRED, vb2_nv_set ctx1 VB2_NV_DISPLAY_REQUEST 1)
       \<and> vb2_nv_get (snd (vb2api_ec_sync ops K ctx)) VB2_NV_DISPLAY_REQUEST = 1"
  using assms
  by (simp add: vb2api_ec_sync_def check_reboot_for_display_def vb2_nv_get_def)

theorem vb2api_ec_sync_display_reboot_witness:
  "sd_flags (example_ctx 24576 0 0) AND VB2_SD_STATUS_EC_SYNC_COMPLETE example_constants = 0
   \<and> ctx_flags (example_ctx 24576 0 0) AND VB2_CONTEXT_RECOVERY_MODE example_constants = 0
   \<and> fst (ec_sync_phase1 (example_ec_ops 0 1) example_constants (example_ctx 24576 0 0))
       = VBERROR_EC_REBOOT_TO_RO_REQUIRED
   \<and> ec_will_update_slowly example_constants
       (snd (ec_sync_phase1 (example_ec_ops 0 1) example_constants (example_ctx 24576 0 0)))
   \<and> sd_flags (snd (ec_sync_phase1 (example_ec_ops 0 1) example_constants (example_ctx 24576 0 0)))
         AND VB2_SD_FLAG_DISPLAY_AVAILABLE = 0
   \<and> fst (vb2api_ec_sync (example_ec_ops 0 1) example_constants (example_ctx 24576 0 0))
       = VBERROR_REBOOT_REQUIRED
   \<and> vb2_nv_get (snd (vb2api_ec_sync (example_ec_ops 0 1) example_constants (example_ctx 24576 0 0)))
         VB2_NV_DISPLAY_REQUEST = 1"
proof -
  have p1f: "fst (ec_sync_phase1 (example_ec_ops 0 1) example_constants (example_ctx 24576 0 0))
      = VBERROR_EC_REBOOT_TO_RO_REQUIRED"
    by (simp add: ex_ec_simps)
  then have p1: "ec_sync_phase1 (example_ec_ops 0 1) example_constants (example_ctx 24576 0 0)
      = (VBERROR_EC_REBOOT_TO_RO_REQUIRED,
         snd (ec_sync_phase1 (example_ec_ops 0 1) example_constants (example_ctx 24576 0 0)))"
    by (simp add: prod_eq_iff)
  have c: "sd_flags (example_ctx 24576 0 0) AND VB2_SD_STATUS_EC_SYNC_COMPLETE example_constants = 0"
    and r: "ctx_flags (example_ctx 24576 0 0) AND VB2_CONTEXT_RECOVERY_MODE example_constants = 0"
    by (simp_all add: example_ctx_def example_constants_def)
  have s: "ec_will_update_slowly example_constants
       (snd (ec_sync_phase1 (example_ec_ops 0 1) example_constants (example_ctx 24576 0 0)))"
    by (simp add: ex_ec_simps)
  have d: "sd_flags (snd (ec_sync_phase1 (example_ec_ops 0 1) example_constants (example_ctx 24576 0 0)))
         AND VB2_SD_FLAG_DISPLAY_AVAILABLE = 0"
    by (simp add: ex_ec_simps)
  note t = vb2api_ec_sync_display_reboot [OF c r p1 s d]
  have "fst (vb2api_ec_sync (example_ec_ops 0 1) example_constants (example_ctx 24576 0 0))
       = VBERROR_REBOOT_REQUIRED"
    using t by simp
  with t c r p1f s d show ?thesis
    by blast
qed

subsection \<open>Update of the RW image on A/B devices\<close>

lemma update_ec_success_calls:
  "fst (update_ec ops K select ctx) = VB2_SUCCESS \<Longrightarrow>
   ec_calls (snd (update_ec ops K select ctx))
     = ec_calls ctx @ [EC_UPDATE_IMAGE select, EC_HASH_IMAGE select,
                       EC_GET_EXPECTED_IMAGE_HASH select]"
  by (auto simp: update_ec_def check_ec_hash_def ec_op_def split_beta split: if_splits)

text \<open>
  C7. With the EC-EFS flag set and the RW image marked for update, if \<open>update_ec\<close> of
  the update slot succeeds, \<open>sync_ec\<close> returns \<open>VBERROR_EC_REBOOT_TO_SWITCH_RW\<close> in the
  state \<open>update_ec\<close> left: the calls logged are the update and the two hash reads that
  verify it, and no jump, RO update, protect or disable-jump call.
\<close>

theorem sync_ec_efs_reboot_to_switch:
  assumes "ctx_flags ctx AND VB2_CONTEXT_EC_EFS K \<noteq> 0"
    and "sd_flags ctx AND VB2_SD_FLAG_ECSYNC_EC_RW \<noteq> 0"
    and "update_ec ops K VB_SELECT_FIRMWARE_EC_UPDATE ctx = (VB2_SUCCESS, ctx1)"
  shows "sync_ec ops K ctx = (VBERROR_EC_REBOOT_TO_SWITCH_RW, ctx1)
       \<and> ec_calls ctx1 = ec_calls ctx @
           [EC_UPDATE_IMAGE VB_SELECT_FIRMWARE_EC_UPDATE,
            EC_HASH_IMAGE VB_SELECT_FIRMWARE_EC_UPDATE,
            EC_GET_EXPECTED_IMAGE_HASH VB_SELECT_FIRMWARE_EC_UPDATE]"
proof -
  have "sync_ec ops K ctx = (VBERROR_EC_REBOOT_TO_SWITCH_RW, ctx1)"
    using assms by (simp add: sync_ec_def sync_ec_update_rw_def SYNC_FLAG_def Let_def)
  moreover have "ec_calls ctx1 = ec_calls ctx @
           [EC_UPDATE_IMAGE VB_SELECT_FIRMWARE_EC_UPDATE,
            EC_HASH_IMAGE VB_SELECT_FIRMWARE_EC_UPDATE,
            EC_GET_EXPECTED_IMAGE_HASH VB_SELECT_FIRMWARE_EC_UPDATE]"
    using update_ec_success_calls [of ops K VB_SELECT_FIRMWARE_EC_UPDATE ctx] assms(3) by simp
  ultimately show ?thesis by simp
qed

theorem sync_ec_efs_reboot_to_switch_witness:
  "ctx_flags (example_ctx 40960 16 0) AND VB2_CONTEXT_EC_EFS example_constants \<noteq> 0
   \<and> sd_flags (example_ctx 40960 16 0) AND VB2_SD_FLAG_ECSYNC_EC_RW \<noteq> 0
   \<and> fst (update_ec (example_ec_ops 0 1) example_constants VB_SELECT_FIRMWARE_EC_UPDATE
            (example_ctx 40960 16 0)) = VB2_SUCCESS
   \<and> fst (sync_ec (example_ec_ops 0 1) example_constants (example_ctx 40960 16 0))
       = VBERROR_EC_REBOOT_TO_SWITCH_RW
   \<and> ec_calls (snd (sync_ec (example_ec_ops 0 1) example_constants (example_ctx 40960 16 0)))
       = [EC_UPDATE_IMAGE VB_SELECT_FIRMWARE_EC_UPDATE,
          EC_HASH_IMAGE VB_SELECT_FIRMWARE_EC_UPDATE,
          EC_GET_EXPECTED_IMAGE_HASH VB_SELECT_FIRMWARE_EC_UPDATE]"
proof -
  have e: "ctx_flags (example_ctx 40960 16 0) AND VB2_CONTEXT_EC_EFS example_constants \<noteq> 0"
    and f: "sd_flags (example_ctx 40960 16 0) AND VB2_SD_FLAG_ECSYNC_EC_RW \<noteq> 0"
    by (simp_all add: example_ctx_def example_constants_def VB2_SD_FLAG_ECSYNC_EC_RW_def)
  have uf: "fst (update_ec (example_ec_ops 0 1) example_constants VB_SELECT_FIRMWARE_EC_UPDATE
            (example_ctx 40960 16 0)) = VB2_SUCCESS"
    by (simp add: ex_ec_simps)
  then have u: "update_ec (example_ec_ops 0 1) example_constants VB_SELECT_FIRMWARE_EC_UPDATE
            (example_ctx 40960 16 0)
      = (VB2_SUCCESS, snd (update_ec (example_ec_ops 0 1) example_constants
            VB_SELECT_FIRMWARE_EC_UPDATE (example_ctx 40960 16 0)))"
    by (simp add: prod_eq_iff)
  note t = sync_ec_efs_reboot_to_switch [OF e f u]
  have n: "ec_calls (example_ctx 40960 16 0) = []"
    by (simp add: example_ctx_def)
  have "fst (sync_ec (example_ec_ops 0 1) example_constants (example_ctx 40960 16 0))
       = VBERROR_EC_REBOOT_TO_SWITCH_RW"
    using t by simp
  moreover have "ec_calls (snd (sync_ec (example_ec_ops 0 1) example_constants (example_ctx 40960 16 0)))
       = [EC_UPDATE_IMAGE VB_SELECT_FIRMWARE_EC_UPDATE,
          EC_HASH_IMAGE VB_SELECT_FIRMWARE_EC_UPDATE,
          EC_GET_EXPECTED_IMAGE_HASH VB_SELECT_FIRMWARE_EC_UPDATE]"
    using t n by simp
  ultimately show ?thesis
    using e f uf by blast
qed


subsection \<open>Two invocations in one boot\<close>






subsection \<open>Retries of the RO update\<close>

lemma ro_updates_simps [simp]:
  "ro_updates (vb2_nv_set ctx p v) = ro_updates ctx"
  "ro_updates (request_recovery ctx r) = ro_updates ctx"
  "ro_updates (ctx\<lparr>sd_flags := x\<rparr>) = ro_updates ctx"
  "ro_updates (snd (ec_op c f ctx))
     = ro_updates ctx + (if c = EC_UPDATE_IMAGE VB_SELECT_FIRMWARE_READONLY then 1 else 0)"
  by (simp_all add: ro_updates_def)

lemma ro_updates_check_ec_hash [simp]:
  "ro_updates (snd (check_ec_hash ops K select ctx)) = ro_updates ctx"
  by (simp add: check_ec_hash_def split_beta)

lemma ro_updates_update_ec:
  "ro_updates (snd (update_ec ops K select ctx))
     = ro_updates ctx + (if select = VB_SELECT_FIRMWARE_READONLY then 1 else 0)"
  by (simp add: update_ec_def split_beta)

lemma ro_updates_protect_ec [simp]:
  "ro_updates (snd (protect_ec ops K select ctx)) = ro_updates ctx"
  by (simp add: protect_ec_def split_beta)

lemma ro_updates_loop:
  "ro_updates (snd (ro_update_loop ops K num_tries ctx))
     \<le> ro_updates ctx + (RO_RETRIES - num_tries)"
proof (induction ops K num_tries ctx rule: ro_update_loop.induct)
  case (1 ops K num_tries ctx)
  show ?case
  proof (cases "num_tries < RO_RETRIES")
    case False
    then show ?thesis
      by (simp add: ro_update_loop.simps [of ops K num_tries ctx])
  next
    case True
    obtain rv ctx1 where u: "update_ec ops K VB_SELECT_FIRMWARE_READONLY ctx = (rv, ctx1)"
      by (cases "update_ec ops K VB_SELECT_FIRMWARE_READONLY ctx")
    have c1: "ro_updates ctx1 = ro_updates ctx + 1"
      using ro_updates_update_ec [of ops K VB_SELECT_FIRMWARE_READONLY ctx] u by simp
    show ?thesis
    proof (cases "VB2_SUCCESS = rv")
      case True
      with \<open>num_tries < RO_RETRIES\<close> u c1 show ?thesis
        by (simp add: ro_update_loop.simps [of ops K num_tries ctx])
    next
      case False
      have "ro_updates (snd (ro_update_loop ops K (num_tries + 1) ctx1))
          \<le> ro_updates ctx1 + (RO_RETRIES - (num_tries + 1))"
        using "1.IH" [OF True u [symmetric] False] .
      with \<open>num_tries < RO_RETRIES\<close> u c1 False show ?thesis
        by (simp add: ro_update_loop.simps [of ops K num_tries ctx])
    qed
  qed
qed

lemma select_rw_not_ro [simp]: "sync_ec_select_rw K ctx \<noteq> VB_SELECT_FIRMWARE_READONLY"
  by (simp add: sync_ec_select_rw_def)

lemma ro_updates_before_ro:
  "ro_updates (snd (sync_ec_before_ro ops K ctx)) = ro_updates ctx"
  by (simp add: sync_ec_before_ro_def sync_ec_update_rw_def sync_ec_jump_rw_def
      ro_updates_update_ec split_beta split: option.splits)

lemma ro_updates_update_ro:
  "ro_updates (snd (sync_ec_update_ro ops K ctx)) \<le> ro_updates ctx + RO_RETRIES"
  using ro_updates_loop [of ops K 0 "vb2_nv_set ctx VB2_NV_TRY_RO_SYNC 0"]
  by (simp add: sync_ec_update_ro_def split_beta Let_def)

lemma ro_updates_protect [simp]:
  "ro_updates (snd (sync_ec_protect ops K select ctx)) = ro_updates ctx"
  by (simp add: sync_ec_protect_def split_beta)

lemma sync_ec_by_blocks:
  "sync_ec ops K ctx =
     (case sync_ec_before_ro ops K ctx of
        (Some rv, ctx2) \<Rightarrow> (rv, ctx2)
      | (None, ctx2) \<Rightarrow>
          case sync_ec_update_ro ops K ctx2 of
            (Some rv, ctx3) \<Rightarrow> (rv, ctx3)
          | (None, ctx3) \<Rightarrow> sync_ec_protect ops K (sync_ec_select_rw K ctx) ctx3)"
  by (simp add: sync_ec_def sync_ec_before_ro_def sync_ec_select_rw_def Let_def
      split: prod.splits option.splits)

lemma sync_ec_ro_updates_bound:
  "ro_updates (snd (sync_ec ops K ctx)) \<le> ro_updates ctx + RO_RETRIES"
proof -
  obtain r2 ctx2 where b: "sync_ec_before_ro ops K ctx = (r2, ctx2)"
    by (cases "sync_ec_before_ro ops K ctx")
  obtain r3 ctx3 where u: "sync_ec_update_ro ops K ctx2 = (r3, ctx3)"
    by (cases "sync_ec_update_ro ops K ctx2")
  have c2: "ro_updates ctx2 = ro_updates ctx"
    using ro_updates_before_ro [of ops K ctx] b by simp
  have c3: "ro_updates ctx3 \<le> ro_updates ctx2 + RO_RETRIES"
    using ro_updates_update_ro [of ops K ctx2] u by simp
  show ?thesis
    using b u c2 c3 by (simp add: sync_ec_by_blocks split: option.splits)
qed

lemma ro_update_loop_unrolled:
  "ro_update_loop ops K 0 ctx =
     (case update_ec ops K VB_SELECT_FIRMWARE_READONLY ctx of
        (rv1, try1) \<Rightarrow>
          if rv1 = VB2_SUCCESS then (0, try1)
          else case update_ec ops K VB_SELECT_FIRMWARE_READONLY try1 of
                 (rv2, try2) \<Rightarrow> if rv2 = VB2_SUCCESS then (1, try2) else (2, try2))"
proof -
  have l2: "ro_update_loop ops K (Suc (Suc 0)) c = (Suc (Suc 0), c)" for c
    by (subst ro_update_loop.simps) (simp add: RO_RETRIES_def)
  have l1: "ro_update_loop ops K (Suc 0) c =
     (case update_ec ops K VB_SELECT_FIRMWARE_READONLY c of
        (rv2, try2) \<Rightarrow> if rv2 = VB2_SUCCESS then (Suc 0, try2) else (Suc (Suc 0), try2))" for c
    by (subst ro_update_loop.simps)
      (simp add: RO_RETRIES_def l2 eq_commute [of VB2_SUCCESS] split: prod.splits)
  show ?thesis
    by (subst ro_update_loop.simps)
      (simp add: RO_RETRIES_def l1 numeral_2_eq_2 eq_commute [of VB2_SUCCESS]
        split: prod.splits)
qed

lemma protect_ec_success_nv:
  "fst (protect_ec ops K select ctx) = VB2_SUCCESS \<Longrightarrow>
   nvdata (snd (protect_ec ops K select ctx)) = nvdata ctx"
  by (auto simp: protect_ec_def split_beta split: if_splits)

lemma sync_ec_protect_success_nv:
  "fst (sync_ec_protect ops K select ctx) = VB2_SUCCESS \<Longrightarrow>
   nvdata (snd (sync_ec_protect ops K select ctx)) = nvdata ctx"
  using protect_ec_success_nv [of ops K VB_SELECT_FIRMWARE_READONLY ctx]
    protect_ec_success_nv [of ops K select "snd (protect_ec ops K VB_SELECT_FIRMWARE_READONLY ctx)"]
  by (auto simp: sync_ec_protect_def split_beta split: if_splits)

text \<open>
  C6. Let \<open>sync_ec\<close>, started in \<open>ctx0\<close>, reach its RO block in the state \<open>ctx\<close> with
  the flag "EC-RO needs update" set, and let \<open>rv1\<close>, \<open>rv2\<close> be the results of a first
  and a second \<open>update_ec\<close> of the RO image from there. Then \<open>sync_ec\<close> calls
  \<open>vb2ex_ec_update_image\<close> for the RO image at most \<open>RO_RETRIES = 2\<close> times. If both
  attempts fail, it returns \<open>VBERROR_EC_REBOOT_TO_RO_REQUIRED\<close>. If the first fails and
  the second succeeds, it goes on to the protect block in a state whose NV recovery
  request is the one \<open>ctx\<close> had before the first attempt, and when \<open>sync_ec\<close> then
  returns success the NV recovery request still is that one.
\<close>

theorem sync_ec_ro_retry:
  assumes reach: "sync_ec_before_ro ops K ctx0 = (None, ctx)"
    and pending: "sd_flags ctx AND VB2_SD_FLAG_ECSYNC_EC_RO \<noteq> 0"
    and first: "update_ec ops K VB_SELECT_FIRMWARE_READONLY
                  (vb2_nv_set ctx VB2_NV_TRY_RO_SYNC 0) = (rv1, try1)"
    and second: "update_ec ops K VB_SELECT_FIRMWARE_READONLY try1 = (rv2, try2)"
  shows "ro_updates (snd (sync_ec ops K ctx0)) \<le> ro_updates ctx0 + RO_RETRIES
     \<and> (rv1 \<noteq> VB2_SUCCESS \<and> rv2 \<noteq> VB2_SUCCESS \<longrightarrow>
          sync_ec ops K ctx0 = (VBERROR_EC_REBOOT_TO_RO_REQUIRED, try2))
     \<and> (rv1 \<noteq> VB2_SUCCESS \<and> rv2 = VB2_SUCCESS \<longrightarrow>
          sync_ec ops K ctx0
            = sync_ec_protect ops K (sync_ec_select_rw K ctx0)
                (request_recovery try2 (vb2_nv_get ctx VB2_NV_RECOVERY_REQUEST))
          \<and> vb2_nv_get (request_recovery try2 (vb2_nv_get ctx VB2_NV_RECOVERY_REQUEST))
                VB2_NV_RECOVERY_REQUEST
              = vb2_nv_get ctx VB2_NV_RECOVERY_REQUEST
          \<and> (fst (sync_ec ops K ctx0) = VB2_SUCCESS \<longrightarrow>
                vb2_nv_get (snd (sync_ec ops K ctx0)) VB2_NV_RECOVERY_REQUEST
                  = vb2_nv_get ctx VB2_NV_RECOVERY_REQUEST))"
proof -
  have bound: "ro_updates (snd (sync_ec ops K ctx0)) \<le> ro_updates ctx0 + RO_RETRIES"
    by (rule sync_ec_ro_updates_bound)
  have both_fail: "sync_ec ops K ctx0 = (VBERROR_EC_REBOOT_TO_RO_REQUIRED, try2)"
    if "rv1 \<noteq> VB2_SUCCESS" "rv2 \<noteq> VB2_SUCCESS"
    using that reach pending first second
    by (simp add: sync_ec_by_blocks sync_ec_update_ro_def ro_update_loop_unrolled
        RO_RETRIES_def Let_def)
  have retry: "sync_ec ops K ctx0
            = sync_ec_protect ops K (sync_ec_select_rw K ctx0)
                (request_recovery try2 (vb2_nv_get ctx VB2_NV_RECOVERY_REQUEST))"
    if "rv1 \<noteq> VB2_SUCCESS" "rv2 = VB2_SUCCESS"
    using that reach pending first second
    by (simp add: sync_ec_by_blocks sync_ec_update_ro_def ro_update_loop_unrolled
        RO_RETRIES_def Let_def vb2_nv_get_def)
  have restored: "vb2_nv_get (request_recovery try2 (vb2_nv_get ctx VB2_NV_RECOVERY_REQUEST))
                VB2_NV_RECOVERY_REQUEST
              = vb2_nv_get ctx VB2_NV_RECOVERY_REQUEST"
    by (simp add: vb2_nv_get_def)
  have final: "vb2_nv_get (snd (sync_ec ops K ctx0)) VB2_NV_RECOVERY_REQUEST
                  = vb2_nv_get ctx VB2_NV_RECOVERY_REQUEST"
    if "rv1 \<noteq> VB2_SUCCESS" "rv2 = VB2_SUCCESS" "fst (sync_ec ops K ctx0) = VB2_SUCCESS"
    using sync_ec_protect_success_nv [of ops K "sync_ec_select_rw K ctx0"
        "request_recovery try2 (vb2_nv_get ctx VB2_NV_RECOVERY_REQUEST)"]
      that retry [OF that(1,2)]
    by (simp add: vb2_nv_get_def)
  from bound both_fail retry restored final show ?thesis
    by blast
qed

theorem sync_ec_ro_retry_witness:
  "sync_ec_before_ro (example_ec_ops 1 1) example_constants (example_ctx 8192 72 0)
     = (None, example_ctx 8192 72 0)
   \<and> sd_flags (example_ctx 8192 72 0) AND VB2_SD_FLAG_ECSYNC_EC_RO \<noteq> 0
   \<and> fst (update_ec (example_ec_ops 1 1) example_constants VB_SELECT_FIRMWARE_READONLY
            (vb2_nv_set (example_ctx 8192 72 0) VB2_NV_TRY_RO_SYNC 0)) = VB2_ERROR_OTHER 1
   \<and> vb2_nv_get
         (snd (update_ec (example_ec_ops 1 1) example_constants VB_SELECT_FIRMWARE_READONLY
                 (vb2_nv_set (example_ctx 8192 72 0) VB2_NV_TRY_RO_SYNC 0)))
         VB2_NV_RECOVERY_REQUEST = 38
   \<and> fst (update_ec (example_ec_ops 1 1) example_constants VB_SELECT_FIRMWARE_READONLY
            (snd (update_ec (example_ec_ops 1 1) example_constants VB_SELECT_FIRMWARE_READONLY
                    (vb2_nv_set (example_ctx 8192 72 0) VB2_NV_TRY_RO_SYNC 0)))) = VB2_SUCCESS
   \<and> fst (sync_ec (example_ec_ops 1 1) example_constants (example_ctx 8192 72 0)) = VB2_SUCCESS
   \<and> vb2_nv_get (snd (sync_ec (example_ec_ops 1 1) example_constants (example_ctx 8192 72 0)))
         VB2_NV_RECOVERY_REQUEST
       = vb2_nv_get (example_ctx 8192 72 0) VB2_NV_RECOVERY_REQUEST
   \<and> ro_updates (snd (sync_ec (example_ec_ops 1 1) example_constants (example_ctx 8192 72 0)))
       \<le> ro_updates (example_ctx 8192 72 0) + RO_RETRIES
   \<and> sync_ec_before_ro (example_ec_ops 2 1) example_constants (example_ctx 8192 72 0)
       = (None, example_ctx 8192 72 0)
   \<and> fst (update_ec (example_ec_ops 2 1) example_constants VB_SELECT_FIRMWARE_READONLY
            (vb2_nv_set (example_ctx 8192 72 0) VB2_NV_TRY_RO_SYNC 0)) = VB2_ERROR_OTHER 1
   \<and> fst (update_ec (example_ec_ops 2 1) example_constants VB_SELECT_FIRMWARE_READONLY
            (snd (update_ec (example_ec_ops 2 1) example_constants VB_SELECT_FIRMWARE_READONLY
                    (vb2_nv_set (example_ctx 8192 72 0) VB2_NV_TRY_RO_SYNC 0))))
       = VB2_ERROR_OTHER 1
   \<and> fst (sync_ec (example_ec_ops 2 1) example_constants (example_ctx 8192 72 0))
       = VBERROR_EC_REBOOT_TO_RO_REQUIRED"
proof -
  let ?K = example_constants and ?c = "example_ctx 8192 72 0"
  let ?t0 = "vb2_nv_set ?c VB2_NV_TRY_RO_SYNC 0"
  let ?u1 = "update_ec (example_ec_ops 1 1) ?K VB_SELECT_FIRMWARE_READONLY ?t0"
  let ?u2 = "update_ec (example_ec_ops 1 1) ?K VB_SELECT_FIRMWARE_READONLY (snd ?u1)"
  let ?v1 = "update_ec (example_ec_ops 2 1) ?K VB_SELECT_FIRMWARE_READONLY ?t0"
  let ?v2 = "update_ec (example_ec_ops 2 1) ?K VB_SELECT_FIRMWARE_READONLY (snd ?v1)"
  have reach1: "sync_ec_before_ro (example_ec_ops 1 1) ?K ?c = (None, ?c)"
    and reach2: "sync_ec_before_ro (example_ec_ops 2 1) ?K ?c = (None, ?c)"
    by (simp_all add: sync_ec_before_ro_def sync_ec_select_rw_def ex_ec_simps)
  have pending: "sd_flags ?c AND VB2_SD_FLAG_ECSYNC_EC_RO \<noteq> 0"
    by (simp add: example_ctx_def VB2_SD_FLAG_ECSYNC_EC_RO_def)
  have u1: "fst ?u1 = VB2_ERROR_OTHER 1" and n1: "vb2_nv_get (snd ?u1) VB2_NV_RECOVERY_REQUEST = 38"
    and v1: "fst ?v1 = VB2_ERROR_OTHER 1"
    by (simp_all add: ex_ec_simps)
  have u2: "fst ?u2 = VB2_SUCCESS" and v2: "fst ?v2 = VB2_ERROR_OTHER 1"
    by (simp_all add: ex_ec_simps)
  have s1: "fst (sync_ec (example_ec_ops 1 1) ?K ?c) = VB2_SUCCESS"
    by (simp add: ex_ec_simps ro_update_loop_unrolled)
  have e1: "?u1 = (fst ?u1, snd ?u1)" and e2: "?u2 = (fst ?u2, snd ?u2)"
    and d1: "?v1 = (fst ?v1, snd ?v1)" and d2: "?v2 = (fst ?v2, snd ?v2)"
    by simp_all
  note a = sync_ec_ro_retry [OF reach1 pending e1 e2]
  note b = sync_ec_ro_retry [OF reach2 pending d1 d2]
  have ne: "fst ?u1 \<noteq> VB2_SUCCESS" "fst ?v1 \<noteq> VB2_SUCCESS" "fst ?v2 \<noteq> VB2_SUCCESS"
    using u1 v1 v2 by simp_all
  have r1: "vb2_nv_get (snd (sync_ec (example_ec_ops 1 1) ?K ?c)) VB2_NV_RECOVERY_REQUEST
       = vb2_nv_get ?c VB2_NV_RECOVERY_REQUEST"
    using a ne(1) u2 s1 by blast
  have c1: "ro_updates (snd (sync_ec (example_ec_ops 1 1) ?K ?c)) \<le> ro_updates ?c + RO_RETRIES"
    using a by blast
  have "sync_ec (example_ec_ops 2 1) ?K ?c = (VBERROR_EC_REBOOT_TO_RO_REQUIRED, snd ?v2)"
    using b ne(2,3) by blast
  then have f2: "fst (sync_ec (example_ec_ops 2 1) ?K ?c) = VBERROR_EC_REBOOT_TO_RO_REQUIRED"
    by simp
  from reach1 reach2 pending u1 n1 u2 s1 r1 c1 v1 v2 f2 show ?thesis
    by blast
qed


end
